theory Spec2Isabelle
  imports Complex_Main "HOL-Library.AList"
begin

section \<open>JavaScript string primitives used by the services\<close>

text \<open>
  A JavaScript string is modelled as a \<^typ>\<open>string\<close>: a list of code units, here the
  code units below 256 (Latin-1). All words the code compares against are ASCII.
\<close>

text \<open>The class \<^verbatim>\<open>\s\<close> of a regular expression, and the characters \<^verbatim>\<open>trim()\<close> removes,
  restricted to code units below 256: TAB, LF, VT, FF, CR, SPACE and NBSP.\<close>

definition isSpace :: "char \<Rightarrow> bool" where
  "isSpace c = ((of_char c :: nat) \<in> {9, 10, 11, 12, 13, 32, 160})"

text \<open>The class \<^verbatim>\<open>[.!?]\<close>.\<close>

definition isSentenceEnd :: "char \<Rightarrow> bool" where
  "isSentenceEnd c = (c = CHR ''.'' \<or> c = CHR ''!'' \<or> c = CHR ''?'')"

text \<open>\<^verbatim>\<open>toLowerCase()\<close> on one code unit below 256: A..Z and the Latin-1 capitals
  (0xC0..0xDE without the multiplication sign 0xD7) move up by 32.\<close>

definition toLowerChar :: "char \<Rightarrow> char" where
  "toLowerChar c =
     (let n = (of_char c :: nat)
      in if (65 \<le> n \<and> n \<le> 90) \<or> (192 \<le> n \<and> n \<le> 222 \<and> n \<noteq> 215)
         then char_of (n + 32) else c)"

definition toLowerCase :: "string \<Rightarrow> string" where
  "toLowerCase s = map toLowerChar s"

text \<open>
  \<^verbatim>\<open>s.split(/[C]+/)\<close> for a character class \<open>C\<close>: the pieces of \<open>s\<close> between the maximal
  runs of characters of the class. As in JavaScript a run at the start or at the end
  of the string leaves an empty piece there, and the empty string splits to one empty
  piece. \<open>cur\<close> is the piece being read (reversed), \<open>inSep\<close> says that the last
  character read was a separator.
\<close>

fun splitRuns :: "(char \<Rightarrow> bool) \<Rightarrow> bool \<Rightarrow> string \<Rightarrow> string \<Rightarrow> string list" where
  "splitRuns sep inSep cur [] = [rev cur]"
| "splitRuns sep inSep cur (c # cs) =
     (if sep c
      then (if inSep then splitRuns sep True cur cs
            else rev cur # splitRuns sep True [] cs)
      else splitRuns sep False (c # cur) cs)"

definition splitRegex :: "(char \<Rightarrow> bool) \<Rightarrow> string \<Rightarrow> string list" where
  "splitRegex sep s = splitRuns sep False [] s"

text \<open>\<^verbatim>\<open>s.split('_')\<close> with a one-character string separator: every occurrence splits.\<close>

fun splitChar :: "char \<Rightarrow> string \<Rightarrow> string \<Rightarrow> string list" where
  "splitChar d cur [] = [rev cur]"
| "splitChar d cur (c # cs) =
     (if c = d then rev cur # splitChar d [] cs else splitChar d (c # cur) cs)"

definition trim :: "string \<Rightarrow> string" where
  "trim s = rev (dropWhile isSpace (rev (dropWhile isSpace s)))"

text \<open>A non-negative number in a template literal: its decimal digits.\<close>

fun digitsOf :: "nat \<Rightarrow> string" where
  "digitsOf n =
     (if n < 10 then [char_of (48 + n)]
      else digitsOf (n div 10) @ [char_of (48 + n mod 10)])"

section \<open>Shared types\<close>

text \<open>\<^verbatim>\<open>src/shared/types.ts\<close>. Numbers that the code only stores (confidence, audio
  level) are reals; durations are whole seconds.\<close>

record Speaker =
  sp_id :: string
  sp_name :: string
  sp_confidence :: real
  sp_sampleAudio :: string

record TranscriptionResult =
  tr_transcript :: string
  tr_speakers :: "Speaker list"
  tr_confidence :: real
  tr_duration :: int

datatype Priority = high | medium | low

record ActionItem =
  ai_id :: string
  ai_task :: string
  ai_assignee :: string
  ai_dueDate :: "string option"
  ai_priority :: Priority
  ai_completed :: bool

record AIAnalysisResult =
  an_summary :: string
  an_decisions :: "string list"
  an_actionItems :: "ActionItem list"
  an_suggestedTitle :: string
  an_keyTopics :: "string list"

text \<open>\<^verbatim>\<open>Omit<Meeting, 'id' | 'createdAt' | 'updatedAt'>\<close>, and \<^verbatim>\<open>Meeting\<close> as its extension.\<close>

record MeetingDraft =
  m_title :: string
  m_date :: string
  m_duration :: int
  m_participants :: "string list"
  m_transcript :: string
  m_summary :: string
  m_decisions :: "string list"
  m_actionItems :: "ActionItem list"
  m_audioFilePath :: "string option"
  m_tags :: "string list"
  m_notes :: string

record Meeting = MeetingDraft +
  m_id :: string
  m_createdAt :: string
  m_updatedAt :: string

record RecordingStatus =
  rs_isRecording :: bool
  rs_duration :: int
  rs_audioLevel :: real
  rs_fileName :: "string option"

section \<open>TranscriptionService: the speaker estimate\<close>

text \<open>The local variables of \<^verbatim>\<open>simulateSpeakerDiarization\<close>, in the order the code
  computes them.\<close>

definition words :: "string \<Rightarrow> string list" where
  "words transcript = splitRegex isSpace (toLowerCase transcript)"

definition totalWords :: "string \<Rightarrow> nat" where
  "totalWords transcript = length (words transcript)"

definition conversationIndicators :: "string list" where
  "conversationIndicators =
     [''yes'', ''no'', ''okay'', ''right'', ''exactly'', ''sure'', ''definitely'',
      ''question'', ''answer'', ''think'', ''believe'', ''agree'', ''disagree'']"

definition addressPatterns :: "string list" where
  "addressPatterns = [''you'', ''your'', ''we'', ''us'', ''our'']"

definition isIndicator :: "string \<Rightarrow> bool" where
  "isIndicator word = (word \<in> set conversationIndicators \<or> word \<in> set addressPatterns)"

definition indicatorCount :: "string \<Rightarrow> nat" where
  "indicatorCount transcript = length (filter isIndicator (words transcript))"

text \<open>
  The quotient is a double in the code: the correctly rounded value of the exact
  quotient of the two counts, compared with the correctly rounded value of 15/100 (of
  8/100, and of 6/10 for the sentences). Rounding is monotone, and an exact quotient
  with a denominator \<open>n\<close> that differs from the threshold differs from it by at least
  \<open>1 / (100 * n)\<close>, far more than the rounding error for any length a string can have;
  so each comparison of the code has the value of the exact comparison below.
\<close>

definition indicatorRatio :: "string \<Rightarrow> real" where
  "indicatorRatio transcript = real (indicatorCount transcript) / real (totalWords transcript)"

text \<open>\<^verbatim>\<open>numSpeakers\<close> after the two comparisons of the ratio.\<close>

definition ratioSpeakers :: "string \<Rightarrow> nat" where
  "ratioSpeakers transcript =
     (if indicatorRatio transcript > 0.15 then 3
      else if indicatorRatio transcript > 0.08 then 2
      else 1)"

definition sentences :: "string \<Rightarrow> string list" where
  "sentences transcript =
     filter (\<lambda>s. length (trim s) > 10) (splitRegex isSentenceEnd transcript)"

definition shortSentences :: "string \<Rightarrow> nat" where
  "shortSentences transcript =
     length (filter (\<lambda>s. length (splitRegex isSpace s) < 15) (sentences transcript))"

text \<open>\<^verbatim>\<open>numSpeakers\<close> after the check of the sentence pattern, from its value \<open>n\<close> before.\<close>

definition dialogueSpeakers :: "string \<Rightarrow> nat \<Rightarrow> nat" where
  "dialogueSpeakers transcript n =
     (if length (sentences transcript) > 5
      then (if real (shortSentences transcript) / real (length (sentences transcript)) > 0.6
            then max n 2 else n)
      else n)"

text \<open>The final \<^verbatim>\<open>numSpeakers\<close>: 1 by default, the analysis only above 100 words,
  capped at 4.\<close>

definition numSpeakers :: "string \<Rightarrow> nat" where
  "numSpeakers transcript =
     min (if totalWords transcript > 100
          then dialogueSpeakers transcript (ratioSpeakers transcript)
          else 1) 4"

text \<open>
  The list of speakers. \<open>rnd i\<close> is the value of \<^verbatim>\<open>Math.random()\<close> for speaker \<open>i\<close>;
  \<open>audioSnippets\<close> is what \<^verbatim>\<open>extractAudioSnippets\<close> returned (it runs an external
  program per speaker and may stop early, so its length is not fixed), and the empty
  list when no audio file was given. \<^verbatim>\<open>audioSnippets[i] || ''\<close> is the empty string out
  of range.
\<close>

definition snippetAt :: "string list \<Rightarrow> nat \<Rightarrow> string" where
  "snippetAt audioSnippets i = (if i < length audioSnippets then audioSnippets ! i else [])"

definition simulateSpeakerDiarization ::
  "(nat \<Rightarrow> real) \<Rightarrow> string list \<Rightarrow> string \<Rightarrow> Speaker list" where
  "simulateSpeakerDiarization rnd audioSnippets transcript =
     map (\<lambda>i. \<lparr>sp_id = ''speaker_'' @ digitsOf (i + 1),
               sp_name = ''Speaker '' @ digitsOf (i + 1),
               sp_confidence = 0.75 + rnd i * 0.2,
               sp_sampleAudio = snippetAt audioSnippets i\<rparr>)
       [0..<numSpeakers transcript]"

text \<open>
  The words of a text as the specification speaks of them: its maximal runs of
  characters that are not white space, which are the non-empty pieces of the split.
  The code never computes this; it counts the pieces. The two counts are compared
  below.
\<close>

definition properWords :: "string \<Rightarrow> string list" where
  "properWords s = filter (\<lambda>w. w \<noteq> []) (splitRegex isSpace s)"

section \<open>AudioRecordingService\<close>

text \<open>
  The fields of the class. \<open>recording\<close> is the handle of the capture subprocess (the
  program it runs), \<open>audioFile\<close> the open write stream (the path it writes),
  \<open>statusInterval\<close> says whether the one-second timer is armed and \<open>startTime\<close> is in
  milliseconds. \<open>effects\<close> is the log of what the service did to the outside: files,
  subprocess, timer and the events it emitted, oldest first.
\<close>

datatype RecordProgram = sox | rec

datatype WarningLevel = warning | critical

datatype Event =
    RecordingError string
  | RecordingStarted string
  | RecordingStopped "string option" int "string option"
  | TimeWarning int string WarningLevel
  | StatusUpdate RecordingStatus

datatype Effect =
    CreateWriteStream string
  | SpawnRecorder RecordProgram
  | StopRecorder
  | EndStream
  | SetInterval
  | ClearInterval
  | Emit Event

record AudioRecordingService =
  recording :: "RecordProgram option"
  isRecording :: bool
  startTime :: "int option"
  audioFile :: "string option"
  currentFileName :: "string option"
  recordingsDir :: string
  statusInterval :: bool
  effects :: "Effect list"

text \<open>The constructor: nothing is recording, no timer is armed. (It also creates the
  directory of the recordings, which no operation below reads.)\<close>

definition newService :: "string \<Rightarrow> AudioRecordingService" where
  "newService dir =
     \<lparr>recording = None, isRecording = False, startTime = None, audioFile = None,
      currentFileName = None, recordingsDir = dir, statusInterval = False, effects = []\<rparr>"

definition perform :: "Effect list \<Rightarrow> AudioRecordingService \<Rightarrow> AudioRecordingService" where
  "perform es s = s\<lparr>effects := effects s @ es\<rparr>"

text \<open>\<^verbatim>\<open>path.join(dir, name)\<close> for a directory without a trailing separator.\<close>

definition pathJoin :: "string \<Rightarrow> string \<Rightarrow> string" where
  "pathJoin dir file = dir @ ''/'' @ file"

text \<open>\<^verbatim>\<open>Math.floor((now - start) / 1000)\<close> on whole milliseconds.\<close>

definition elapsedSeconds :: "int \<Rightarrow> int \<Rightarrow> int" where
  "elapsedSeconds now start = (now - start) div 1000"

text \<open>\<^verbatim>\<open>getAudioLevel\<close> and \<^verbatim>\<open>getRecordingStatus\<close>; \<open>rnd\<close> is the value of
  \<^verbatim>\<open>Math.random()\<close> and \<open>now\<close> the value of \<^verbatim>\<open>Date.now()\<close>.\<close>

definition getAudioLevel :: "real \<Rightarrow> AudioRecordingService \<Rightarrow> real" where
  "getAudioLevel rnd s = (if \<not> isRecording s then 0 else rnd * 0.8 + 0.1)"

definition getRecordingStatus :: "real \<Rightarrow> int \<Rightarrow> AudioRecordingService \<Rightarrow> RecordingStatus" where
  "getRecordingStatus rnd now s =
     \<lparr>rs_isRecording = isRecording s,
      rs_duration = (case startTime s of
                       Some t \<Rightarrow> if isRecording s then elapsedSeconds now t else 0
                     | None \<Rightarrow> 0),
      rs_audioLevel = getAudioLevel rnd s,
      rs_fileName = (case currentFileName s of
                       Some f \<Rightarrow> if f = [] then None else Some f
                     | None \<Rightarrow> None)\<rparr>"

text \<open>\<^verbatim>\<open>startStatusUpdates\<close>: a timer that is armed is cleared before the new one is
  set.\<close>

definition startStatusUpdates :: "AudioRecordingService \<Rightarrow> AudioRecordingService" where
  "startStatusUpdates s =
     (perform [SetInterval] (if statusInterval s then perform [ClearInterval] s else s))
       \<lparr>statusInterval := True\<rparr>"

text \<open>The events of one run of the timer's callback while recording, from the status
  it read.\<close>

definition tickEvents :: "RecordingStatus \<Rightarrow> Event list" where
  "tickEvents status =
     (let duration = rs_duration status
      in (if duration = 70 * 60
          then [TimeWarning duration
                  ''Recording has reached 70 minutes. Do you want to continue?'' warning]
          else if duration = 90 * 60
          then [TimeWarning duration
                  ''Recording has reached 90 minutes. This is getting quite long. Do you want to continue?''
                  critical]
          else [])
         @ [StatusUpdate status])"

text \<open>The callback of the timer, run at time \<open>now\<close>.\<close>

definition statusCallback :: "real \<Rightarrow> int \<Rightarrow> AudioRecordingService \<Rightarrow> AudioRecordingService" where
  "statusCallback rnd now s =
     (if \<not> isRecording s
      then (if statusInterval s then (perform [ClearInterval] s)\<lparr>statusInterval := False\<rparr> else s)
      else perform (map Emit (tickEvents (getRecordingStatus rnd now s))) s)"

text \<open>The timer fires: the callback runs when the timer is armed, and nothing happens
  otherwise. A session driven by a clock is the timer firing at each time of a list.\<close>

definition timerFires :: "real \<times> int \<Rightarrow> AudioRecordingService \<Rightarrow> AudioRecordingService" where
  "timerFires tick s = (if statusInterval s then statusCallback (fst tick) (snd tick) s else s)"

definition runClock :: "(real \<times> int) list \<Rightarrow> AudioRecordingService \<Rightarrow> AudioRecordingService" where
  "runClock ticks s = fold timerFires ticks s"

text \<open>The time warnings among a list of effects, by level.\<close>

fun isTimeWarning :: "WarningLevel \<Rightarrow> Effect \<Rightarrow> bool" where
  "isTimeWarning l (Emit (TimeWarning d m l')) = (l = l')"
| "isTimeWarning l e = False"

definition timeWarnings :: "WarningLevel \<Rightarrow> Effect list \<Rightarrow> Effect list" where
  "timeWarnings l es = filter (isTimeWarning l) es"

text \<open>\<^verbatim>\<open>pauseForUserChoice\<close> and \<^verbatim>\<open>resumeStatusUpdates\<close>.\<close>

definition pauseForUserChoice :: "AudioRecordingService \<Rightarrow> AudioRecordingService" where
  "pauseForUserChoice s =
     (if statusInterval s then (perform [ClearInterval] s)\<lparr>statusInterval := False\<rparr> else s)"

definition resumeStatusUpdates :: "AudioRecordingService \<Rightarrow> AudioRecordingService" where
  "resumeStatusUpdates s = (if isRecording s then startStatusUpdates s else s)"

text \<open>
  What \<^verbatim>\<open>startRecording\<close> reads from the host: the program \<^verbatim>\<open>findRecordProgram\<close>
  found, the platform, the clock (\<^verbatim>\<open>toISOString()\<close> and milliseconds) and whether
  starting the recorder throws (with the message of the exception; the \<^verbatim>\<open>catch\<close>
  returns it and leaves the state as it was at the throw).
\<close>

record StartEnv =
  recordProgram :: "RecordProgram option"
  darwin :: bool
  isoNow :: string
  startNow :: int
  recorderThrows :: "string option"

definition backendHelp :: "bool \<Rightarrow> string" where
  "backendHelp isDarwin =
     (if isDarwin then ''Install SoX: brew install sox''
      else ''Please install SoX and ensure '' @ [char_of (34::nat)] @ ''sox'' @ [char_of (34::nat)]
           @ '' or '' @ [char_of (34::nat)] @ ''rec'' @ [char_of (34::nat)] @ '' is on your PATH'')"

text \<open>\<^verbatim>\<open>toISOString().replace(/[:.]/g, '-').slice(0, 19)\<close>.\<close>

definition fileTimestamp :: "string \<Rightarrow> string" where
  "fileTimestamp isoString =
     take 19 (map (\<lambda>c. if c = CHR '':'' \<or> c = CHR ''.'' then CHR ''-'' else c) isoString)"

text \<open>\<^verbatim>\<open>startRecording\<close>: \<open>Inl\<close> is \<^verbatim>\<open>{success: false, error}\<close>, \<open>Inr\<close> is
  \<^verbatim>\<open>{success: true, fileName}\<close>.\<close>

definition startRecording ::
  "StartEnv \<Rightarrow> AudioRecordingService \<Rightarrow> (string + string) \<times> AudioRecordingService" where
  "startRecording env s =
     (if isRecording s then (Inl ''Recording already in progress'', s)
      else case recordProgram env of
        None \<Rightarrow>
          (let message = ''Audio backend not found. '' @ backendHelp (darwin env)
           in (Inl message, perform [Emit (RecordingError message)] s))
      | Some program \<Rightarrow>
          (let fileName = ''meeting_'' @ fileTimestamp (isoNow env) @ ''.wav'';
               filePath = pathJoin (recordingsDir s) fileName;
               s1 = (perform [CreateWriteStream filePath] s)
                      \<lparr>currentFileName := Some fileName, audioFile := Some filePath\<rparr>
           in case recorderThrows env of
                Some message \<Rightarrow> (Inl message, s1)
              | None \<Rightarrow>
                  (let s2 = (perform [SpawnRecorder program] s1)
                              \<lparr>recording := Some program, isRecording := True,
                               startTime := Some (startNow env)\<rparr>;
                       s3 = startStatusUpdates s2
                   in (Inr fileName, perform [Emit (RecordingStarted fileName)] s3))))"

text \<open>What \<^verbatim>\<open>stopRecording\<close> reads from the host: the clock, and whether stopping the
  recorder or closing the stream throws (with the message of the exception; the
  \<^verbatim>\<open>catch\<close> returns it and leaves the state as it was at the throw).\<close>

record StopEnv =
  stopNow :: int
  stopThrows :: "string option"
  endThrows :: "string option"

text \<open>\<^verbatim>\<open>stopRecording\<close>: \<open>Inl\<close> is \<^verbatim>\<open>{success: false, error}\<close>, \<open>Inr\<close> is
  \<^verbatim>\<open>{success: true, audioFilePath, duration}\<close>.\<close>

definition stopRecording ::
  "StopEnv \<Rightarrow> AudioRecordingService \<Rightarrow>
   (string + (string option \<times> int)) \<times> AudioRecordingService" where
  "stopRecording env s =
     (if \<not> isRecording s then (Inl ''No recording in progress'', s)
      else case (if recording s \<noteq> None then stopThrows env else None) of
        Some message \<Rightarrow> (Inl message, s)
      | None \<Rightarrow>
          (let s1 = (if recording s \<noteq> None
                     then (perform [StopRecorder] s)\<lparr>recording := None\<rparr> else s)
           in case (if audioFile s1 \<noteq> None then endThrows env else None) of
                Some message \<Rightarrow> (Inl message, s1)
              | None \<Rightarrow>
                  (let s2 = (if audioFile s1 \<noteq> None
                             then (perform [EndStream] s1)\<lparr>audioFile := None\<rparr> else s1);
                       duration = (case startTime s2 of
                                     Some t \<Rightarrow> elapsedSeconds (stopNow env) t
                                   | None \<Rightarrow> 0);
                       audioFilePath = (case currentFileName s2 of
                                          Some f \<Rightarrow> if f = [] then None
                                                    else Some (pathJoin (recordingsDir s2) f)
                                        | None \<Rightarrow> None);
                       s3 = s2\<lparr>isRecording := False, startTime := None\<rparr>;
                       s4 = (if statusInterval s3
                             then (perform [ClearInterval] s3)\<lparr>statusInterval := False\<rparr>
                             else s3);
                       fileName = currentFileName s4;
                       s5 = s4\<lparr>currentFileName := None\<rparr>
                   in (Inr (audioFilePath, duration),
                       perform [Emit (RecordingStopped fileName duration audioFilePath)] s5))))"

text \<open>\<^verbatim>\<open>destroy\<close>.\<close>

definition destroy :: "StopEnv \<Rightarrow> AudioRecordingService \<Rightarrow> AudioRecordingService" where
  "destroy env s =
     (let s1 = (if isRecording s then snd (stopRecording env s) else s)
      in if statusInterval s1 then (perform [ClearInterval] s1)\<lparr>statusInterval := False\<rparr> else s1)"

section \<open>TranscriptionService.transcribeAudio\<close>

text \<open>
  What \<^verbatim>\<open>transcribeAudio\<close> reads from the host: whether the OpenAI client was
  initialised, whether the audio file exists, the answer of the transcription API
  (\<open>Inl\<close> the message of its failure), the list \<^verbatim>\<open>extractAudioSnippets\<close> returns, the
  random source and the size of the audio file in bytes. A thrown \<^verbatim>\<open>Error\<close> is \<open>Inl\<close>
  of its message.
\<close>

record TranscriptionEnv =
  openaiReady :: bool
  audioExists :: bool
  apiTranscript :: "string + string"
  extractedSnippets :: "string list"
  randomSource :: "nat \<Rightarrow> real"
  fileSize :: nat

definition transcribeAudio :: "TranscriptionEnv \<Rightarrow> string \<Rightarrow> string + TranscriptionResult" where
  "transcribeAudio env audioFilePath =
     (if \<not> openaiReady env
      then Inl ''OpenAI client not initialized. Please check your API key.''
      else if \<not> audioExists env
      then Inl (''Audio file not found: '' @ audioFilePath)
      else case apiTranscript env of
        Inl message \<Rightarrow> Inl (''Transcription failed: '' @ message)
      | Inr transcript \<Rightarrow>
          Inr \<lparr>tr_transcript = transcript,
               tr_speakers =
                 simulateSpeakerDiarization (randomSource env)
                   (if audioFilePath \<noteq> [] then extractedSnippets env else []) transcript,
               tr_confidence = 0.9,
               tr_duration = int (fileSize env div 32000)\<rparr>)"

section \<open>DatabaseService.saveMeeting\<close>

text \<open>The identifier and the clock the service draws, and whether the insertion fails
  (the promise is then rejected with the error).\<close>

record DbEnv =
  uuid :: string
  dbNow :: string
  insertError :: "string option"

definition dbSaveMeeting :: "DbEnv \<Rightarrow> MeetingDraft \<Rightarrow> string + Meeting" where
  "dbSaveMeeting env meeting =
     (case insertError env of
        Some message \<Rightarrow> Inl message
      | None \<Rightarrow>
          Inr (MeetingDraft.extend meeting
                 (Meeting.fields (uuid env) (dbNow env) (dbNow env))))"

section \<open>SpeakerIdentification\<close>

text \<open>
  The state \<^verbatim>\<open>speakerNames\<close> is an object from speaker ids to names: an association
  list in the order the keys were first written, which is the order of
  \<^verbatim>\<open>Object.values\<close>.
\<close>

type_synonym SpeakerNames = "(string \<times> string) list"

definition initialNames :: "Speaker list \<Rightarrow> SpeakerNames" where
  "initialNames speakers = fold (\<lambda>speaker names. AList.update (sp_id speaker) [] names) speakers []"

definition handleNameChange :: "string \<Rightarrow> string \<Rightarrow> SpeakerNames \<Rightarrow> SpeakerNames" where
  "handleNameChange speakerId name prev = AList.update speakerId name prev"

definition hasAtLeastOneName :: "SpeakerNames \<Rightarrow> bool" where
  "hasAtLeastOneName speakerNames = list_ex (\<lambda>name. trim name \<noteq> []) (map snd speakerNames)"

text \<open>\<^verbatim>\<open>names.length === new Set(names).size\<close>: the size of the set is the length of
  the list without its repetitions.\<close>

definition hasUniquenames :: "SpeakerNames \<Rightarrow> bool" where
  "hasUniquenames speakerNames =
     (let names = filter (\<lambda>name. trim name \<noteq> []) (map snd speakerNames)
      in length names = length (remdups names))"

text \<open>\<^verbatim>\<open>`Speaker ${speaker.id.split('_')[1]}`\<close>: the second piece of the id, and
  \<^verbatim>\<open>undefined\<close> in the template when the id has no second piece.\<close>

definition defaultName :: "string \<Rightarrow> string" where
  "defaultName speakerId =
     ''Speaker '' @ (case splitChar (CHR ''_'') [] speakerId of
                      first # second # others \<Rightarrow> second
                    | _ \<Rightarrow> ''undefined'')"

text \<open>\<^verbatim>\<open>speakerNames[speaker.id] || ...\<close>: a missing or empty name gives the default.\<close>

definition handleConfirmSpeakers :: "Speaker list \<Rightarrow> SpeakerNames \<Rightarrow> Speaker list" where
  "handleConfirmSpeakers speakers speakerNames =
     map (\<lambda>speaker.
            speaker\<lparr>sp_name :=
              (case map_of speakerNames (sp_id speaker) of
                 Some name \<Rightarrow> if name \<noteq> [] then name else defaultName (sp_id speaker)
               | None \<Rightarrow> defaultName (sp_id speaker))\<rparr>)
       speakers"

text \<open>The button "Confirm Speakers" is disabled unless both checks hold; a click on the
  enabled button hands the speakers to \<^verbatim>\<open>onSpeakersIdentified\<close>.\<close>

definition confirmEnabled :: "SpeakerNames \<Rightarrow> bool" where
  "confirmEnabled speakerNames = (hasAtLeastOneName speakerNames \<and> hasUniquenames speakerNames)"

definition confirmClick :: "Speaker list \<Rightarrow> SpeakerNames \<Rightarrow> Speaker list option" where
  "confirmClick speakers speakerNames =
     (if confirmEnabled speakerNames then Some (handleConfirmSpeakers speakers speakerNames)
      else None)"

section \<open>ProcessingWorkflow\<close>

datatype ProcessingStep = transcription | speaker_identification | ai_analysis | saving | complete

record Metadata =
  md_date :: string
  md_duration :: int
  md_participants :: "string list"

text \<open>\<^verbatim>\<open>files.deleteAudio\<close> resolves with success, resolves with a failure it reports,
  or rejects.\<close>

datatype DeleteOutcome = Deleted | DeleteReported string | DeleteRejected string

text \<open>\<^verbatim>\<open>window.electronAPI\<close>, as far as the workflow calls it, and the clock. A rejected
  promise is \<open>Inl\<close> of its message.\<close>

record Services =
  processAudio :: "string \<Rightarrow> string + TranscriptionResult"
  analyzeMeeting :: "string \<Rightarrow> Metadata \<Rightarrow> string + AIAnalysisResult"
  databaseSave :: "MeetingDraft \<Rightarrow> string + Meeting"
  deleteAudio :: "string \<Rightarrow> DeleteOutcome"
  isoDate :: string

datatype Call =
    ProcessAudio string
  | AnalyzeMeeting string Metadata
  | SaveMeeting MeetingDraft
  | DeleteAudio string

text \<open>
  The state of the component (\<^verbatim>\<open>useState\<close>), and what it did: \<open>stepLog\<close> holds the
  arguments of \<^verbatim>\<open>setCurrentStep\<close> in order, \<open>calls\<close> the calls of the services in order,
  \<open>console\<close> what was logged, \<open>database\<close> the meetings the persistence service has
  stored, and \<open>completed\<close> the meeting handed to the timer that calls \<^verbatim>\<open>onComplete\<close> and
  navigates.
\<close>

record Workflow =
  currentStep :: ProcessingStep
  progress :: nat
  transcriptionResult :: "TranscriptionResult option"
  analysisResult :: "AIAnalysisResult option"
  error :: "string option"
  deleteRecording :: bool
  stepLog :: "ProcessingStep list"
  calls :: "Call list"
  console :: "string list"
  database :: "Meeting list"
  completed :: "Meeting option"

definition initialWorkflow :: "Meeting list \<Rightarrow> Workflow" where
  "initialWorkflow db =
     \<lparr>currentStep = transcription, progress = 0, transcriptionResult = None,
      analysisResult = None, error = None, deleteRecording = True,
      stepLog = [], calls = [], console = [], database = db, completed = None\<rparr>"

definition setCurrentStep :: "ProcessingStep \<Rightarrow> Workflow \<Rightarrow> Workflow" where
  "setCurrentStep step w = w\<lparr>currentStep := step, stepLog := stepLog w @ [step]\<rparr>"

definition called :: "Call \<Rightarrow> Workflow \<Rightarrow> Workflow" where
  "called c w = w\<lparr>calls := calls w @ [c]\<rparr>"

definition logged :: "string \<Rightarrow> Workflow \<Rightarrow> Workflow" where
  "logged line w = w\<lparr>console := console w @ [line]\<rparr>"

text \<open>
  The functions of the component are closures: each reads the state variables of the
  render that created it (\<open>render\<close>: a setter does not change what a function that
  already exists reads) and writes through the setters to the current state (\<open>w\<close>).
  \<open>audioFilePath\<close> is the prop. Every function catches what its body throws, so none
  propagates an exception to its caller.
\<close>

text \<open>The object \<^verbatim>\<open>meeting\<close> that \<^verbatim>\<open>saveMeeting\<close> builds from the transcription result of
  its render.\<close>

definition meetingDraft ::
  "Services \<Rightarrow> string \<Rightarrow> Workflow \<Rightarrow> TranscriptionResult \<Rightarrow> Speaker list \<Rightarrow> AIAnalysisResult
   \<Rightarrow> MeetingDraft" where
  "meetingDraft api audioFilePath render result speakers analysis =
     \<lparr>m_title = an_suggestedTitle analysis,
      m_date = isoDate api,
      m_duration = tr_duration result,
      m_participants = map sp_name speakers,
      m_transcript = tr_transcript result,
      m_summary = an_summary analysis,
      m_decisions = an_decisions analysis,
      m_actionItems = an_actionItems analysis,
      m_audioFilePath = (if deleteRecording render then None else Some audioFilePath),
      m_tags = an_keyTopics analysis,
      m_notes = []\<rparr>"

definition saveMeeting ::
  "Services \<Rightarrow> string \<Rightarrow> Workflow \<Rightarrow> Speaker list \<Rightarrow> AIAnalysisResult \<Rightarrow> Workflow \<Rightarrow> Workflow" where
  "saveMeeting api audioFilePath render speakers analysis w =
     (let w1 = (setCurrentStep saving w)\<lparr>progress := 90\<rparr>
      in case transcriptionResult render of
        None \<Rightarrow>
          (logged ''Failed to save meeting:'' w1)
            \<lparr>error := Some ''Failed to save meeting. Please try again.''\<rparr>
      | Some result \<Rightarrow>
          (let meeting = meetingDraft api audioFilePath render result speakers analysis;
               w2 = called (SaveMeeting meeting) w1
           in case databaseSave api meeting of
                Inl message \<Rightarrow>
                  (logged ''Failed to save meeting:'' w2)
                    \<lparr>error := Some ''Failed to save meeting. Please try again.''\<rparr>
              | Inr savedMeeting \<Rightarrow>
                  (let w3 = w2\<lparr>database := database w2 @ [savedMeeting]\<rparr>;
                       w4 = (if deleteRecording render
                             then (case deleteAudio api audioFilePath of
                                     DeleteRejected message \<Rightarrow>
                                       logged ''Failed to delete audio file:''
                                         (called (DeleteAudio audioFilePath) w3)
                                   | outcome \<Rightarrow>
                                       logged ''Audio file deleted successfully:''
                                         (called (DeleteAudio audioFilePath) w3))
                             else w3);
                       w5 = setCurrentStep complete (w4\<lparr>progress := 100\<rparr>)
                   in w5\<lparr>completed := Some savedMeeting\<rparr>)))"

definition startAIAnalysis ::
  "Services \<Rightarrow> string \<Rightarrow> Workflow \<Rightarrow> Speaker list \<Rightarrow> Workflow \<Rightarrow> Workflow" where
  "startAIAnalysis api audioFilePath render speakers w =
     (let w1 = (setCurrentStep ai_analysis w)\<lparr>progress := 60\<rparr>
      in case transcriptionResult render of
        None \<Rightarrow>
          (logged ''AI analysis failed:'' w1)
            \<lparr>error := Some ''Failed to analyze meeting. Please check your API configuration.''\<rparr>
      | Some result \<Rightarrow>
          (let metadata =
                 \<lparr>md_date = isoDate api,
                  md_duration = tr_duration result,
                  md_participants = map sp_name speakers\<rparr>;
               w2 = called (AnalyzeMeeting (tr_transcript result) metadata) w1
           in case analyzeMeeting api (tr_transcript result) metadata of
                Inl message \<Rightarrow>
                  (logged ''AI analysis failed:'' w2)
                    \<lparr>error := Some ''Failed to analyze meeting. Please check your API configuration.''\<rparr>
              | Inr analysis \<Rightarrow>
                  saveMeeting api audioFilePath render speakers analysis
                    (w2\<lparr>analysisResult := Some analysis, progress := 80\<rparr>)))"

definition startTranscription :: "Services \<Rightarrow> string \<Rightarrow> Workflow \<Rightarrow> Workflow \<Rightarrow> Workflow" where
  "startTranscription api audioFilePath render w =
     (let w1 = (setCurrentStep transcription w)\<lparr>progress := 10\<rparr>;
          w2 = called (ProcessAudio audioFilePath) w1
      in case processAudio api audioFilePath of
        Inl message \<Rightarrow>
          (logged ''Transcription failed:'' w2)
            \<lparr>error := Some ''Failed to transcribe audio. Please check your API configuration.''\<rparr>
      | Inr result \<Rightarrow>
          (let w3 = w2\<lparr>transcriptionResult := Some result, progress := 40\<rparr>
           in if length (tr_speakers result) > 0
              then setCurrentStep speaker_identification w3
              else startAIAnalysis api audioFilePath render [] w3))"

definition handleSpeakersIdentified ::
  "Services \<Rightarrow> string \<Rightarrow> Workflow \<Rightarrow> Speaker list \<Rightarrow> Workflow \<Rightarrow> Workflow" where
  "handleSpeakersIdentified api audioFilePath render identifiedSpeakers w =
     startAIAnalysis api audioFilePath render identifiedSpeakers w"

definition genericSpeakers :: "Workflow \<Rightarrow> Speaker list" where
  "genericSpeakers render =
     (case transcriptionResult render of
        Some result \<Rightarrow>
          map (\<lambda>(index, speaker). speaker\<lparr>sp_name := ''Speaker '' @ digitsOf (index + 1)\<rparr>)
            (enumerate 0 (tr_speakers result))
      | None \<Rightarrow> [])"

definition handleSkipSpeakerIdentification ::
  "Services \<Rightarrow> string \<Rightarrow> Workflow \<Rightarrow> Workflow \<Rightarrow> Workflow" where
  "handleSkipSpeakerIdentification api audioFilePath render w =
     startAIAnalysis api audioFilePath render (genericSpeakers render) w"

text \<open>The effect that runs once after the first render: \<^verbatim>\<open>startTranscription\<close> of the
  first render, which closes over the initial state.\<close>

definition mount :: "Services \<Rightarrow> string \<Rightarrow> Meeting list \<Rightarrow> Workflow" where
  "mount api audioFilePath db =
     startTranscription api audioFilePath (initialWorkflow db) (initialWorkflow db)"

text \<open>
  The naming dialog is rendered when no error is set, the step is the speaker
  identification and a transcription result is there. It is created by the current
  render, so its callbacks close over the current state. What the user can do in it:
  type a name into the field of one of the speakers, click "Confirm Speakers" (which
  does nothing while the button is disabled) or click "Skip this step".
\<close>

datatype NamingEvent = NameChange string string | ConfirmClick | SkipClick

definition dialogShown :: "Workflow \<Rightarrow> bool" where
  "dialogShown w =
     (error w = None \<and> currentStep w = speaker_identification \<and> transcriptionResult w \<noteq> None)"

definition shownSpeakers :: "Workflow \<Rightarrow> Speaker list" where
  "shownSpeakers w = (case transcriptionResult w of Some result \<Rightarrow> tr_speakers result | None \<Rightarrow> [])"

fun namingEvent ::
  "Services \<Rightarrow> string \<Rightarrow> NamingEvent \<Rightarrow> Workflow \<times> SpeakerNames \<Rightarrow> Workflow \<times> SpeakerNames" where
  "namingEvent api audioFilePath (NameChange speakerId name) (w, speakerNames) =
     (if dialogShown w \<and> speakerId \<in> set (map sp_id (shownSpeakers w))
      then (w, handleNameChange speakerId name speakerNames)
      else (w, speakerNames))"
| "namingEvent api audioFilePath ConfirmClick (w, speakerNames) =
     (if dialogShown w
      then (case confirmClick (shownSpeakers w) speakerNames of
              Some identifiedSpeakers \<Rightarrow>
                (handleSpeakersIdentified api audioFilePath w identifiedSpeakers w, speakerNames)
            | None \<Rightarrow> (w, speakerNames))
      else (w, speakerNames))"
| "namingEvent api audioFilePath SkipClick (w, speakerNames) =
     (if dialogShown w
      then (handleSkipSpeakerIdentification api audioFilePath w w, speakerNames)
      else (w, speakerNames))"

section \<open>Concrete inputs\<close>

text \<open>A host with SoX installed, and a service that has just started recording on
  it at time 0.\<close>

definition demoStartEnv :: StartEnv where
  "demoStartEnv =
     \<lparr>recordProgram = Some sox, darwin = False, isoNow = ''2025-01-01T10:00:00.000Z'',
      startNow = 0, recorderThrows = None\<rparr>"

definition demoRecording :: AudioRecordingService where
  "demoRecording = snd (startRecording demoStartEnv (newService ''/home/u/MeetingIntelligence/recordings''))"

text \<open>A clock that fires once in every second, for \<open>n\<close> seconds from time 0.\<close>

definition everySecond :: "nat \<Rightarrow> (real \<times> int) list" where
  "everySecond n = map (\<lambda>k. (1 / 2, 1000 * int k)) [1..<Suc n]"

text \<open>A host on which stopping succeeds, at 4200.5 seconds.\<close>

definition demoStopEnv :: StopEnv where
  "demoStopEnv = \<lparr>stopNow = 4200500, stopThrows = None, endThrows = None\<rparr>"

text \<open>Transcripts: the nine words of the end-to-end scenario; 101 times "we" (102
  pieces, 101 of them indicators); 10 times "we" and 95 times "a" (106 pieces, 10
  indicators); 101 times "a"; and 17 sentences of six words, none an indicator.\<close>

definition budgetTranscript :: string where
  "budgetTranscript = ''Yes I agree, you said the budget is approved''"

definition chattyTranscript :: string where
  "chattyTranscript = concat (replicate 101 ''we '')"

definition mixedTranscript :: string where
  "mixedTranscript = concat (replicate 10 ''we '') @ concat (replicate 95 ''a '')"

definition plainTranscript :: string where
  "plainTranscript = concat (replicate 101 ''a '')"

definition dialogueTranscript :: string where
  "dialogueTranscript = concat (replicate 17 ''a b c d e f. '')"

text \<open>One hundred times "we", a space after each: one hundred words.\<close>

definition hundredWordTranscript :: string where
  "hundredWordTranscript = concat (replicate 100 ''we '')"

text \<open>Eight sentences of fourteen words each, a space after every full stop.\<close>

definition fourteenWordTranscript :: string where
  "fourteenWordTranscript = concat (replicate 8 (concat (replicate 13 ''a '') @ ''a. ''))"

text \<open>
  The end-to-end scenario: the audio file of the demo recording, a transcription
  service that answers with a given transcript, an analysis service that answers with
  a given analysis, a database that stores, and a deletion with a given outcome.
\<close>

definition scenarioPath :: string where
  "scenarioPath = ''/home/u/MeetingIntelligence/recordings/meeting_2025-01-01T10-00-00.wav''"

definition scenarioTranscription :: "string \<Rightarrow> TranscriptionEnv" where
  "scenarioTranscription transcript =
     \<lparr>openaiReady = True, audioExists = True, apiTranscript = Inr transcript,
      extractedSnippets = [], randomSource = (\<lambda>i. 1 / 2), fileSize = 960000\<rparr>"

definition scenarioDb :: DbEnv where
  "scenarioDb = \<lparr>uuid = ''6f1c'', dbNow = ''2025-01-01T11:00:01.000Z'', insertError = None\<rparr>"

definition scenarioApi :: "string \<Rightarrow> AIAnalysisResult \<Rightarrow> DeleteOutcome \<Rightarrow> Services" where
  "scenarioApi transcript analysis outcome =
     \<lparr>processAudio = transcribeAudio (scenarioTranscription transcript),
      analyzeMeeting = (\<lambda>t m. Inr analysis),
      databaseSave = dbSaveMeeting scenarioDb,
      deleteAudio = (\<lambda>p. outcome),
      isoDate = ''2025-01-01T11:00:00.000Z''\<rparr>"

definition fixedAnalysis :: AIAnalysisResult where
  "fixedAnalysis =
     \<lparr>an_summary = ''The budget is approved.'', an_decisions = [''Approve the budget''],
      an_actionItems = [], an_suggestedTitle = ''Budget'', an_keyTopics = [''budget'']\<rparr>"



text \<open>The two speakers detected in the dialogue transcript.\<close>

definition twoSpeakers :: "Speaker list" where
  "twoSpeakers = simulateSpeakerDiarization (\<lambda>i. 1 / 2) [] dialogueTranscript"

section \<open>Properties\<close>

lemma splitRuns_nonempty: "splitRuns sep b cur s \<noteq> []"
  by (induction s arbitrary: b cur) auto

lemma splitRuns_empty_pieces:
  "(b \<longrightarrow> cur = []) \<Longrightarrow>
   length (filter (\<lambda>w. w = []) (splitRuns sep b cur s)) =
     (if \<not> b \<and> cur = [] \<and> s \<noteq> [] \<and> sep (hd s) then 1 else 0)
     + (if (s = [] \<and> cur = []) \<or> (s \<noteq> [] \<and> sep (last s)) then 1 else 0)"
proof (induction s arbitrary: b cur)
  case Nil
  then show ?case by simp
next
  case (Cons c cs)
  show ?case
  proof (cases "sep c")
    case True
    have ih: "length (filter (\<lambda>w. w = []) (splitRuns sep True [] cs)) =
        (if cs = [] \<or> sep (last cs) then 1 else 0)"
      using Cons.IH [of True "[]"] by auto
    show ?thesis using True Cons.prems ih by auto
  next
    case False
    have ih: "length (filter (\<lambda>w. w = []) (splitRuns sep False (c # cur) cs)) =
        (if cs \<noteq> [] \<and> sep (last cs) then 1 else 0)"
      using Cons.IH [of False "c # cur"] by auto
    show ?thesis using False ih by auto
  qed
qed

lemma splitRegex_pieces:
  "length (splitRegex sep s) =
     length (filter (\<lambda>w. w \<noteq> []) (splitRegex sep s))
     + (if s \<noteq> [] \<and> sep (hd s) then 1 else 0)
     + (if s = [] \<or> sep (last s) then 1 else 0)"
proof -
  have "length (splitRegex sep s) =
      length (filter (\<lambda>w. w \<noteq> []) (splitRegex sep s))
      + length (filter (\<lambda>w. w = []) (splitRegex sep s))"
    using sum_length_filter_compl [of "\<lambda>w. w \<noteq> []" "splitRegex sep s"] by simp
  then show ?thesis
    using splitRuns_empty_pieces [of False "[]" sep s]
    by (auto simp: splitRegex_def)
qed

lemma isSpace_toLowerChar: "isSpace (toLowerChar c) = isSpace c"
proof (cases "(65 \<le> (of_char c :: nat) \<and> (of_char c :: nat) \<le> 90)
    \<or> (192 \<le> (of_char c :: nat) \<and> (of_char c :: nat) \<le> 222 \<and> (of_char c :: nat) \<noteq> 215)")
  case True
  then have small: "(of_char c :: nat) + 32 < 256" by auto
  have "(of_char (char_of ((of_char c :: nat) + 32)) :: nat) = of_char c + 32"
    using small by simp
  then show ?thesis
    using True by (auto simp: isSpace_def toLowerChar_def Let_def)
next
  case False
  then show ?thesis by (auto simp: toLowerChar_def Let_def)
qed

lemma toLowerCase_ends:
  "(toLowerCase t = []) = (t = [])"
  "t \<noteq> [] \<Longrightarrow> isSpace (hd (toLowerCase t)) = isSpace (hd t)"
  "t \<noteq> [] \<Longrightarrow> isSpace (last (toLowerCase t)) = isSpace (last t)"
  by (simp_all add: toLowerCase_def hd_map last_map isSpace_toLowerChar)

subsection \<open>The speaker estimate\<close>

lemma ratioSpeakers_range: "1 \<le> ratioSpeakers t \<and> ratioSpeakers t \<le> 3"
  by (simp add: ratioSpeakers_def)

lemma dialogueSpeakers_range:
  "1 \<le> n \<Longrightarrow> n \<le> 3 \<Longrightarrow> 1 \<le> dialogueSpeakers t n \<and> dialogueSpeakers t n \<le> 3"
  by (auto simp: dialogueSpeakers_def)

lemma dialogueSpeakers_ge: "n \<le> dialogueSpeakers t n"
  by (simp add: dialogueSpeakers_def)

lemma numSpeakers_range: "1 \<le> numSpeakers t \<and> numSpeakers t \<le> 4"
  using dialogueSpeakers_range [OF conjunct1 [OF ratioSpeakers_range] conjunct2 [OF ratioSpeakers_range], of t t]
  by (simp add: numSpeakers_def)

lemma totalWords_pos: "0 < totalWords t"
  by (simp add: totalWords_def words_def splitRegex_def splitRuns_nonempty)

lemma ratio_gt_iff:
  "0 < b \<Longrightarrow> (real a / real b > real p / 100) = (p * b < 100 * a)"
proof -
  assume b: "0 < b"
  have "(real p / 100 < real a / real b) = (real p * real b < 100 * real a)"
    using b by (simp add: field_simps)
  also have "\<dots> = (real (p * b) < real (100 * a))" by simp
  also have "\<dots> = (p * b < 100 * a)" by (simp only: of_nat_less_iff)
  finally show ?thesis by simp
qed

lemma indicatorRatio_15: "(indicatorRatio t > 0.15) = (15 * totalWords t < 100 * indicatorCount t)"
  using ratio_gt_iff [OF totalWords_pos, where p = 15 and a = "indicatorCount t" and t1 = t]
  by (simp add: indicatorRatio_def)

lemma indicatorRatio_8: "(indicatorRatio t > 0.08) = (8 * totalWords t < 100 * indicatorCount t)"
  using ratio_gt_iff [OF totalWords_pos, where p = 8 and a = "indicatorCount t" and t1 = t]
  by (simp add: indicatorRatio_def)

lemma short_ratio_60:
  "0 < length (sentences t) \<Longrightarrow>
   (real (shortSentences t) / real (length (sentences t)) > 0.6) =
   (60 * length (sentences t) < 100 * shortSentences t)"
  using ratio_gt_iff [where b = "length (sentences t)" and p = 60 and a = "shortSentences t"]
  by simp

lemma isIndicator_iff:
  "isIndicator w = (w \<in> {''yes'', ''no'', ''okay'', ''right'', ''exactly'', ''sure'', ''definitely'',
      ''question'', ''answer'', ''think'', ''believe'', ''agree'', ''disagree'',
      ''you'', ''your'', ''we'', ''us'', ''our''})"
  unfolding isIndicator_def conversationIndicators_def addressPatterns_def
  by auto

lemma numSpeakers_long:
  "100 < totalWords t \<Longrightarrow> numSpeakers t = dialogueSpeakers t (ratioSpeakers t)"
  using dialogueSpeakers_range [OF conjunct1 [OF ratioSpeakers_range] conjunct2 [OF ratioSpeakers_range], of t t]
  by (simp add: numSpeakers_def)

lemma pieces_words:
  "length (splitRegex isSpace s) =
     length (properWords s)
     + (if s \<noteq> [] \<and> isSpace (hd s) then 1 else 0)
     + (if s = [] \<or> isSpace (last s) then 1 else 0)"
  unfolding properWords_def by (rule splitRegex_pieces)

lemma totalWords_words:
  "totalWords t =
     length (properWords (toLowerCase t))
     + (if t \<noteq> [] \<and> isSpace (hd t) then 1 else 0)
     + (if t = [] \<or> isSpace (last t) then 1 else 0)"
  using pieces_words [of "toLowerCase t"] toLowerCase_ends [of t]
  by (cases "t = []") (simp_all add: totalWords_def words_def)

lemma hundred_counts:
  "totalWords hundredWordTranscript = 101" "indicatorCount hundredWordTranscript = 100"
  "length (sentences hundredWordTranscript) = 1"
  by code_simp+

lemma hundred_words: "length (properWords hundredWordTranscript) = 100"
  by code_simp

text \<open>
  Claim C4, as stated, fails. The transcript of one hundred times "we " has one
  hundred white-space tokens, all of them in the word set, so by the claim its estimate
  is 1. Its split at white space has 101 pieces, the last one empty for the space at
  the end; the code compares this number with 100, takes the ratio 100 / 101 and
  returns 3.
\<close>

theorem C4_counterexample:
  "length (properWords hundredWordTranscript) = 100
   \<and> totalWords hundredWordTranscript = 101
   \<and> numSpeakers hundredWordTranscript = 3"
proof -
  have "ratioSpeakers hundredWordTranscript = 3"
    by (simp add: ratioSpeakers_def indicatorRatio_def hundred_counts)
  then have "numSpeakers hundredWordTranscript = 3"
    by (simp add: numSpeakers_def dialogueSpeakers_def hundred_counts)
  then show ?thesis
    by (simp add: hundred_counts hundred_words)
qed

text \<open>
  Claim C4, amended. \<open>totalWords\<close> is the number of pieces of the split at white space:
  the number of white-space tokens, and one more for white space at the start and one
  more for white space at the end (or for the empty transcript). A
  transcript with \<open>totalWords\<close> at most 100 has the estimate 1 whatever it contains. The
  indicator count is the number of pieces in the fixed set of 18 conversational and
  address words, the ratio is that count divided by \<open>totalWords\<close>, and the estimate from
  the ratio is 3 above 0.15, 2 above 0.08 and 1 otherwise; the comparisons of the ratio
  are the exact comparisons of the two counts. With \<open>totalWords\<close> above 100 the final
  estimate is this value after the check of the sentence pattern, and is never below
  it.
\<close>

theorem C4_estimate_by_word_count_and_ratio:
  "(totalWords t \<le> 100 \<longrightarrow> numSpeakers t = 1)
   \<and> totalWords t =
       length (properWords (toLowerCase t))
       + (if t \<noteq> [] \<and> isSpace (hd t) then 1 else 0)
       + (if t = [] \<or> isSpace (last t) then 1 else 0)
   \<and> indicatorCount t =
       length (filter (\<lambda>w. w \<in> {''yes'', ''no'', ''okay'', ''right'', ''exactly'', ''sure'',
                 ''definitely'', ''question'', ''answer'', ''think'', ''believe'', ''agree'',
                 ''disagree'', ''you'', ''your'', ''we'', ''us'', ''our''}) (words t))
   \<and> indicatorRatio t = real (indicatorCount t) / real (totalWords t)
   \<and> (indicatorRatio t > 0.15) = (15 * totalWords t < 100 * indicatorCount t)
   \<and> (indicatorRatio t > 0.08) = (8 * totalWords t < 100 * indicatorCount t)
   \<and> ratioSpeakers t =
       (if indicatorRatio t > 0.15 then 3 else if indicatorRatio t > 0.08 then 2 else 1)
   \<and> (100 < totalWords t \<longrightarrow>
        numSpeakers t = dialogueSpeakers t (ratioSpeakers t) \<and> ratioSpeakers t \<le> numSpeakers t)"
proof -
  have count: "indicatorCount t =
       length (filter (\<lambda>w. w \<in> {''yes'', ''no'', ''okay'', ''right'', ''exactly'', ''sure'',
                 ''definitely'', ''question'', ''answer'', ''think'', ''believe'', ''agree'',
                 ''disagree'', ''you'', ''your'', ''we'', ''us'', ''our''}) (words t))"
    unfolding indicatorCount_def isIndicator_iff ..
  have short: "totalWords t \<le> 100 \<longrightarrow> numSpeakers t = 1"
    by (simp add: numSpeakers_def)
  have long: "100 < totalWords t \<longrightarrow>
        numSpeakers t = dialogueSpeakers t (ratioSpeakers t) \<and> ratioSpeakers t \<le> numSpeakers t"
    using dialogueSpeakers_ge [of "ratioSpeakers t" t] by (simp add: numSpeakers_long)
  have ratio: "indicatorRatio t = real (indicatorCount t) / real (totalWords t)"
    by (simp add: indicatorRatio_def)
  have base: "ratioSpeakers t =
       (if indicatorRatio t > 0.15 then 3 else if indicatorRatio t > 0.08 then 2 else 1)"
    by (simp add: ratioSpeakers_def)
  show ?thesis
    using count short long ratio base indicatorRatio_15 [of t] indicatorRatio_8 [of t]
      totalWords_words [of t]
    by blast
qed

lemma budget_counts: "totalWords budgetTranscript = 9"
  by code_simp

lemma chatty_counts: "totalWords chattyTranscript = 102" "indicatorCount chattyTranscript = 101"
  by code_simp+

lemma mixed_counts: "totalWords mixedTranscript = 106" "indicatorCount mixedTranscript = 10"
  by code_simp+

lemma plain_counts: "totalWords plainTranscript = 102" "indicatorCount plainTranscript = 0"
  by code_simp+

theorem C4_witness:
  "numSpeakers budgetTranscript = 1
   \<and> ratioSpeakers chattyTranscript = 3
   \<and> ratioSpeakers mixedTranscript = 2
   \<and> ratioSpeakers plainTranscript = 1
   \<and> numSpeakers chattyTranscript = dialogueSpeakers chattyTranscript 3"
  using C4_estimate_by_word_count_and_ratio [of budgetTranscript]
    C4_estimate_by_word_count_and_ratio [of chattyTranscript]
    C4_estimate_by_word_count_and_ratio [of mixedTranscript]
    C4_estimate_by_word_count_and_ratio [of plainTranscript]
  by (simp add: budget_counts chatty_counts mixed_counts plain_counts)

lemma isSentenceEnd_set: "isSentenceEnd = (\<lambda>c. c \<in> {CHR ''.'', CHR ''!'', CHR ''?''})"
  by (auto simp: isSentenceEnd_def fun_eq_iff)

lemma fourteen_counts:
  "totalWords fourteenWordTranscript = 113" "indicatorCount fourteenWordTranscript = 0"
  "length (sentences fourteenWordTranscript) = 8" "shortSentences fourteenWordTranscript = 1"
  by code_simp+

lemma fourteen_words:
  "length (properWords fourteenWordTranscript) = 112"
  "length (filter (\<lambda>s. length (properWords s) < 15) (sentences fourteenWordTranscript)) = 8"
  by code_simp+

text \<open>
  Claim C5, as stated, fails. The transcript below has 112 words in eight sentences of
  fourteen words, so every sentence has fewer than 15 words; but each sentence after
  the first starts with the space that follows the full stop, its split at white space
  has 15 pieces, and the code counts one short sentence out of eight. The estimate
  stays 1.
\<close>

theorem C5_counterexample:
  "100 < length (properWords fourteenWordTranscript)
   \<and> 100 < totalWords fourteenWordTranscript
   \<and> length (sentences fourteenWordTranscript) = 8
   \<and> length (filter (\<lambda>s. length (properWords s) < 15) (sentences fourteenWordTranscript)) = 8
   \<and> numSpeakers fourteenWordTranscript = 1"
proof -
  have "ratioSpeakers fourteenWordTranscript = 1"
    by (simp add: ratioSpeakers_def indicatorRatio_def fourteen_counts)
  then have "numSpeakers fourteenWordTranscript = 1"
    by (simp add: numSpeakers_def dialogueSpeakers_def fourteen_counts)
  then show ?thesis
    by (simp add: fourteen_counts fourteen_words)
qed

text \<open>
  Claim C5, amended. The sentences are the pieces of the split at runs of full stops,
  exclamation marks and question marks whose trimmed length is above 10; they are kept
  untrimmed. A sentence is short when its split at white space has fewer than 15
  pieces, that is when the number of its words, plus one if it starts with white space
  and plus one if it ends with white space, is below 15. For a transcript with
  \<open>totalWords\<close> above 100 and more than 5 sentences of which more than 60 percent are
  short, the estimate is the larger of 2 and the estimate from the ratio, so at least
  2. For every transcript the estimate is between 1 and 4.
\<close>

theorem C5_short_sentences_raise_estimate:
  "sentences t =
     filter (\<lambda>s. 10 < length (trim s)) (splitRegex (\<lambda>c. c \<in> {CHR ''.'', CHR ''!'', CHR ''?''}) t)
   \<and> shortSentences t =
       length (filter (\<lambda>s. length (properWords s)
                             + (if s \<noteq> [] \<and> isSpace (hd s) then 1 else 0)
                             + (if s = [] \<or> isSpace (last s) then 1 else 0) < 15)
                 (sentences t))
   \<and> (100 < totalWords t \<and> 5 < length (sentences t)
        \<and> 60 * length (sentences t) < 100 * shortSentences t
      \<longrightarrow> numSpeakers t = max (ratioSpeakers t) 2 \<and> 2 \<le> numSpeakers t)
   \<and> (5 < length (sentences t) \<longrightarrow>
        (real (shortSentences t) / real (length (sentences t)) > 0.6)
        = (60 * length (sentences t) < 100 * shortSentences t))
   \<and> 1 \<le> numSpeakers t \<and> numSpeakers t \<le> 4"
proof -
  have s: "sentences t =
     filter (\<lambda>s. 10 < length (trim s)) (splitRegex (\<lambda>c. c \<in> {CHR ''.'', CHR ''!'', CHR ''?''}) t)"
    by (simp add: sentences_def isSentenceEnd_set)
  have sh: "shortSentences t =
       length (filter (\<lambda>s. length (properWords s)
                             + (if s \<noteq> [] \<and> isSpace (hd s) then 1 else 0)
                             + (if s = [] \<or> isSpace (last s) then 1 else 0) < 15)
                 (sentences t))"
    by (simp only: shortSentences_def pieces_words)
  have pct: "5 < length (sentences t) \<longrightarrow>
        (real (shortSentences t) / real (length (sentences t)) > 0.6)
        = (60 * length (sentences t) < 100 * shortSentences t)"
  proof
    assume "5 < length (sentences t)"
    then have "0 < length (sentences t)" by auto
    then show "(real (shortSentences t) / real (length (sentences t)) > 0.6)
        = (60 * length (sentences t) < 100 * shortSentences t)"
      by (rule short_ratio_60)
  qed
  have raise: "100 < totalWords t \<and> 5 < length (sentences t)
        \<and> 60 * length (sentences t) < 100 * shortSentences t
      \<longrightarrow> numSpeakers t = max (ratioSpeakers t) 2 \<and> 2 \<le> numSpeakers t"
  proof (intro impI, elim conjE)
    assume long: "100 < totalWords t" and many: "5 < length (sentences t)"
      and short: "60 * length (sentences t) < 100 * shortSentences t"
    have "real (shortSentences t) / real (length (sentences t)) > 0.6"
      using pct many short by simp
    then have "dialogueSpeakers t (ratioSpeakers t) = max (ratioSpeakers t) 2"
      using many by (simp add: dialogueSpeakers_def)
    then show "numSpeakers t = max (ratioSpeakers t) 2 \<and> 2 \<le> numSpeakers t"
      using numSpeakers_long [OF long] by simp
  qed
  show ?thesis
    using s sh pct raise numSpeakers_range [of t] by blast
qed

lemma dialogue_counts:
  "totalWords dialogueTranscript = 103" "length (sentences dialogueTranscript) = 17"
  "shortSentences dialogueTranscript = 17" "indicatorCount dialogueTranscript = 0"
  by code_simp+

theorem C5_witness:
  "numSpeakers dialogueTranscript = 2 \<and> ratioSpeakers dialogueTranscript = 1
   \<and> 1 \<le> numSpeakers budgetTranscript \<and> numSpeakers budgetTranscript \<le> 4"
proof -
  have r: "ratioSpeakers dialogueTranscript = 1"
    by (simp add: ratioSpeakers_def indicatorRatio_def dialogue_counts)
  show ?thesis
    using C5_short_sentences_raise_estimate [of dialogueTranscript]
      C5_short_sentences_raise_estimate [of budgetTranscript]
    by (simp add: dialogue_counts r)
qed

lemma numSpeakers_empty: "numSpeakers [] = 1"
  by code_simp

text \<open>
  Claim C10. For every transcript, the empty one included, every value of the random
  source and every list of extracted snippets, the list of speakers that
  \<^verbatim>\<open>simulateSpeakerDiarization\<close> returns is not empty: it has as many elements as the
  estimate, at least 1 and at most 4, and exactly 1 for the empty transcript. So a
  transcription result that \<^verbatim>\<open>transcribeAudio\<close> returns never has an empty list of
  speakers.
\<close>

theorem C10_speaker_list_never_empty:
  "simulateSpeakerDiarization rnd audioSnippets t \<noteq> []
   \<and> 1 \<le> length (simulateSpeakerDiarization rnd audioSnippets t)
   \<and> length (simulateSpeakerDiarization rnd audioSnippets t) \<le> 4
   \<and> length (simulateSpeakerDiarization rnd audioSnippets t) = numSpeakers t
   \<and> length (simulateSpeakerDiarization rnd audioSnippets []) = 1
   \<and> (transcribeAudio env audioFilePath = Inr result \<longrightarrow>
        tr_speakers result \<noteq> [] \<and> length (tr_speakers result) \<le> 4)"
proof -
  have len: "length (simulateSpeakerDiarization r a u) = numSpeakers u" for r a u
    by (simp add: simulateSpeakerDiarization_def)
  have ne: "simulateSpeakerDiarization r a u \<noteq> []" for r a u
    using numSpeakers_range [of u] len [of r a u]
    by (cases "simulateSpeakerDiarization r a u") auto
  have le: "length (simulateSpeakerDiarization r a u) \<le> 4" for r a u
    using numSpeakers_range [of u] by (simp add: len)
  have tr: "transcribeAudio env audioFilePath = Inr result \<longrightarrow>
        tr_speakers result \<noteq> [] \<and> length (tr_speakers result) \<le> 4"
    using ne le by (auto simp: transcribeAudio_def split: if_splits sum.splits)
  show ?thesis
    using ne [of rnd audioSnippets t] le [of rnd audioSnippets t] numSpeakers_range [of t] tr
    by (simp add: len numSpeakers_empty)
qed

theorem C10_witness:
  "length (simulateSpeakerDiarization (\<lambda>i. 1 / 2) [] []) = 1
   \<and> length (simulateSpeakerDiarization (\<lambda>i. 1 / 2) [] chattyTranscript) \<le> 4
   \<and> simulateSpeakerDiarization (\<lambda>i. 1 / 2) [] budgetTranscript \<noteq> []
   \<and> simulateSpeakerDiarization (\<lambda>i. 1 / 2) [] [] \<noteq> []"
proof -
  have run: "transcribeAudio (scenarioTranscription []) scenarioPath =
      Inr \<lparr>tr_transcript = [],
           tr_speakers = simulateSpeakerDiarization (\<lambda>i. 1 / 2) [] [],
           tr_confidence = 0.9, tr_duration = 30\<rparr>"
    by (simp add: transcribeAudio_def scenarioTranscription_def scenarioPath_def)
  let ?result = "\<lparr>tr_transcript = [],
           tr_speakers = simulateSpeakerDiarization (\<lambda>i. 1 / 2) [] [],
           tr_confidence = 0.9, tr_duration = 30\<rparr>"
  show ?thesis
    using C10_speaker_list_never_empty [of "\<lambda>i. 1 / 2" "[]" chattyTranscript
        "scenarioTranscription []" scenarioPath ?result]
      C10_speaker_list_never_empty [of "\<lambda>i. 1 / 2" "[]" budgetTranscript
        "scenarioTranscription []" scenarioPath ?result] run
    by simp
qed

subsection \<open>The recording service\<close>

lemma perform_fields [simp]:
  "isRecording (perform es s) = isRecording s"
  "startTime (perform es s) = startTime s"
  "statusInterval (perform es s) = statusInterval s"
  "currentFileName (perform es s) = currentFileName s"
  "recording (perform es s) = recording s"
  "audioFile (perform es s) = audioFile s"
  "recordingsDir (perform es s) = recordingsDir s"
  "effects (perform es s) = effects s @ es"
  by (simp_all add: perform_def)

lemma timerFires_recording:
  assumes "isRecording s" "statusInterval s"
  shows "timerFires tick s =
         perform (map Emit (tickEvents (getRecordingStatus (fst tick) (snd tick) s))) s"
  using assms by (simp add: timerFires_def statusCallback_def)

lemma timerFires_paused: "\<not> statusInterval s \<Longrightarrow> timerFires tick s = s"
  by (simp add: timerFires_def)

lemma status_duration:
  assumes "isRecording s" "startTime s = Some t0"
  shows "rs_duration (getRecordingStatus rnd now s) = elapsedSeconds now t0"
  using assms by (simp add: getRecordingStatus_def)

lemma timeWarnings_append: "timeWarnings l (xs @ ys) = timeWarnings l xs @ timeWarnings l ys"
  by (simp add: timeWarnings_def)

lemma timeWarnings_tick_warning:
  "timeWarnings warning (map Emit (tickEvents st)) =
     (if rs_duration st = 4200
      then [Emit (TimeWarning 4200 ''Recording has reached 70 minutes. Do you want to continue?'' warning)]
      else [])"
  by (simp add: timeWarnings_def tickEvents_def Let_def)

lemma timeWarnings_tick_critical:
  "timeWarnings critical (map Emit (tickEvents st)) =
     (if rs_duration st = 5400
      then [Emit (TimeWarning 5400 ''Recording has reached 90 minutes. This is getting quite long. Do you want to continue?'' critical)]
      else [])"
  by (simp add: timeWarnings_def tickEvents_def Let_def)

lemma runClock_warnings:
  assumes "isRecording s" "statusInterval s" "startTime s = Some t0"
  shows "timeWarnings warning (effects (runClock ticks s)) =
           timeWarnings warning (effects s) @
           map (\<lambda>_. Emit (TimeWarning 4200 ''Recording has reached 70 minutes. Do you want to continue?'' warning))
             (filter (\<lambda>d. d = 4200) (map (\<lambda>tick. elapsedSeconds (snd tick) t0) ticks))
         \<and> timeWarnings critical (effects (runClock ticks s)) =
           timeWarnings critical (effects s) @
           map (\<lambda>_. Emit (TimeWarning 5400 ''Recording has reached 90 minutes. This is getting quite long. Do you want to continue?'' critical))
             (filter (\<lambda>d. d = 5400) (map (\<lambda>tick. elapsedSeconds (snd tick) t0) ticks))"
  using assms
proof (induction ticks arbitrary: s)
  case Nil
  then show ?case by (simp add: runClock_def)
next
  case (Cons tick ticks)
  let ?s' = "timerFires tick s"
  have step: "?s' = perform (map Emit (tickEvents (getRecordingStatus (fst tick) (snd tick) s))) s"
    using Cons.prems by (simp add: timerFires_recording)
  have inv: "isRecording ?s'" "statusInterval ?s'" "startTime ?s' = Some t0"
    using Cons.prems by (simp_all add: step)
  have run: "runClock (tick # ticks) s = runClock ticks ?s'"
    by (simp add: runClock_def)
  have d: "rs_duration (getRecordingStatus (fst tick) (snd tick) s) = elapsedSeconds (snd tick) t0"
    using Cons.prems by (simp add: status_duration)
  show ?case
    using Cons.IH [OF inv]
    by (simp add: run step timeWarnings_append timeWarnings_tick_warning
        timeWarnings_tick_critical d)
qed

lemma filter_eq_upt:
  "filter (\<lambda>d. d = int k) (map int [i..<j]) = (if i \<le> k \<and> k < j then [int k] else [])"
  by (induction j) auto

subsection \<open>Time warnings\<close>

text \<open>
  Claim C1. A session is recording with its timer armed, and the clock fires the timer
  so that the elapsed seconds it reads are 1, 2, ..., n, each once. Then the session
  emits one time warning of level warning if it reaches second 4200 and none
  otherwise, and one of level critical if it reaches second 5400 and none otherwise.
  A single firing of the timer emits the warning exactly when it reads 4200 elapsed
  seconds, and the critical warning exactly when it reads 5400.
\<close>

theorem C1_time_warnings_at_exact_seconds:
  assumes "isRecording s" and "statusInterval s" and "startTime s = Some t0"
    and "map (\<lambda>tick. elapsedSeconds (snd tick) t0) ticks = map int [1..<Suc n]"
  shows "timeWarnings warning (effects (runClock ticks s)) =
           timeWarnings warning (effects s) @
           (if 4200 \<le> n
            then [Emit (TimeWarning 4200 ''Recording has reached 70 minutes. Do you want to continue?'' warning)]
            else [])
       \<and> timeWarnings critical (effects (runClock ticks s)) =
           timeWarnings critical (effects s) @
           (if 5400 \<le> n
            then [Emit (TimeWarning 5400 ''Recording has reached 90 minutes. This is getting quite long. Do you want to continue?'' critical)]
            else [])
       \<and> timeWarnings warning (effects (timerFires (rnd, now) s)) =
           timeWarnings warning (effects s) @
           (if elapsedSeconds now t0 = 4200
            then [Emit (TimeWarning 4200 ''Recording has reached 70 minutes. Do you want to continue?'' warning)]
            else [])
       \<and> timeWarnings critical (effects (timerFires (rnd, now) s)) =
           timeWarnings critical (effects s) @
           (if elapsedSeconds now t0 = 5400
            then [Emit (TimeWarning 5400 ''Recording has reached 90 minutes. This is getting quite long. Do you want to continue?'' critical)]
            else [])"
proof -
  let ?ds = "map (\<lambda>tick. elapsedSeconds (snd tick) t0) ticks"
  have w: "filter (\<lambda>d. d = 4200) ?ds = (if 4200 \<le> n then [4200] else [])"
    using filter_eq_upt [of 4200 1 "Suc n"] by (simp only: assms(4)) auto
  have c: "filter (\<lambda>d. d = 5400) ?ds = (if 5400 \<le> n then [5400] else [])"
    using filter_eq_upt [of 5400 1 "Suc n"] by (simp only: assms(4)) auto
  have one: "timerFires (rnd, now) s = runClock [(rnd, now)] s"
    by (simp add: runClock_def)
  note run = runClock_warnings [OF assms(1-3), of ticks, unfolded w c]
  note tick = runClock_warnings [OF assms(1-3), of "[(rnd, now)]", folded one]
  show ?thesis
    using run tick by (simp del: upt_Suc)
qed

lemma demoRecording_eq:
  "demoRecording =
     \<lparr>recording = Some sox, isRecording = True, startTime = Some 0,
      audioFile = Some ''/home/u/MeetingIntelligence/recordings/meeting_2025-01-01T10-00-00.wav'',
      currentFileName = Some ''meeting_2025-01-01T10-00-00.wav'',
      recordingsDir = ''/home/u/MeetingIntelligence/recordings'', statusInterval = True,
      effects =
        [CreateWriteStream ''/home/u/MeetingIntelligence/recordings/meeting_2025-01-01T10-00-00.wav'',
         SpawnRecorder sox, SetInterval,
         Emit (RecordingStarted ''meeting_2025-01-01T10-00-00.wav'')]\<rparr>"
  by (simp add: demoRecording_def demoStartEnv_def startRecording_def newService_def
      perform_def startStatusUpdates_def fileTimestamp_def pathJoin_def Let_def)

lemma everySecond_elapsed:
  "map (\<lambda>tick. elapsedSeconds (snd tick) 0) (everySecond n) = map int [1..<Suc n]"
  by (simp add: everySecond_def elapsedSeconds_def o_def del: upt_Suc)

theorem C1_witness:
  "timeWarnings warning (effects (runClock (everySecond 5400) demoRecording)) =
     [Emit (TimeWarning 4200 ''Recording has reached 70 minutes. Do you want to continue?'' warning)]
   \<and> timeWarnings critical (effects (runClock (everySecond 5400) demoRecording)) =
     [Emit (TimeWarning 5400 ''Recording has reached 90 minutes. This is getting quite long. Do you want to continue?'' critical)]
   \<and> timeWarnings warning (effects (runClock (everySecond 4199) demoRecording)) = []
   \<and> timeWarnings warning (effects (timerFires (1 / 2, 4199000) demoRecording)) = []
   \<and> timeWarnings warning (effects (timerFires (1 / 2, 4201000) demoRecording)) = []"
proof -
  have r: "isRecording demoRecording" "statusInterval demoRecording"
    "startTime demoRecording = Some 0"
    by (simp_all add: demoRecording_eq)
  have e: "timeWarnings l (effects demoRecording) = []" for l
    by (simp add: demoRecording_eq timeWarnings_def)
  note full = C1_time_warnings_at_exact_seconds [OF r everySecond_elapsed, of 5400 "1 / 2" 4199000]
  note short = C1_time_warnings_at_exact_seconds [OF r everySecond_elapsed, of 4199 "1 / 2" 4201000]
  show ?thesis
    using full short by (simp add: e elapsedSeconds_def)
qed

subsection \<open>Starting and stopping\<close>

lemma startRecording_Inr_isRecording:
  "startRecording env s = (Inr f, s') \<Longrightarrow> isRecording s'"
  by (auto simp: startRecording_def startStatusUpdates_def perform_def Let_def
      split: if_splits option.splits)

text \<open>
  Claim C6. In every state of the controller in which a session is recording,
  \<^verbatim>\<open>startRecording\<close> returns the error "Recording already in progress" and the state it
  leaves is the state it found: no field changes and the log of effects gets no entry
  (no file, no subprocess, no timer, no event). In particular a start that succeeded
  followed by a second start gives this error and leaves the first session as it was.
\<close>

theorem C6_start_while_recording_changes_nothing:
  "(isRecording s \<longrightarrow> startRecording env s = (Inl ''Recording already in progress'', s))
   \<and> (startRecording env s = (Inr f, s') \<longrightarrow>
        startRecording env' s' = (Inl ''Recording already in progress'', s'))"
proof (intro conjI impI)
  assume "isRecording s"
  then show "startRecording env s = (Inl ''Recording already in progress'', s)"
    by (simp add: startRecording_def)
next
  assume "startRecording env s = (Inr f, s')"
  then have "isRecording s'" by (rule startRecording_Inr_isRecording)
  then show "startRecording env' s' = (Inl ''Recording already in progress'', s')"
    by (simp add: startRecording_def)
qed

lemma stopRecording_Inr_idle:
  "stopRecording env s = (Inr r, s') \<Longrightarrow> \<not> isRecording s'"
  by (auto simp: stopRecording_def perform_def Let_def split: if_splits option.splits)

text \<open>
  Claim C7. When no session is recording, \<^verbatim>\<open>stopRecording\<close> returns the error "No recording
  in progress" and leaves the state as it found it, with no effect logged; and after a
  stop that succeeded, a second stop returns this same error.
\<close>

theorem C7_stop_when_not_recording:
  "(\<not> isRecording s \<longrightarrow> stopRecording env s = (Inl ''No recording in progress'', s))
   \<and> (stopRecording env s = (Inr r, s') \<longrightarrow>
        stopRecording env' s' = (Inl ''No recording in progress'', s'))"
proof (intro conjI impI)
  assume "\<not> isRecording s"
  then show "stopRecording env s = (Inl ''No recording in progress'', s)"
    by (simp add: stopRecording_def)
next
  assume "stopRecording env s = (Inr r, s')"
  then have "\<not> isRecording s'" by (rule stopRecording_Inr_idle)
  then show "stopRecording env' s' = (Inl ''No recording in progress'', s')"
    by (simp add: stopRecording_def)
qed

lemma demo_start:
  "startRecording demoStartEnv (newService ''/home/u/MeetingIntelligence/recordings'') =
     (Inr ''meeting_2025-01-01T10-00-00.wav'', demoRecording)"
  unfolding demoRecording_eq
  by (simp add: demoStartEnv_def startRecording_def newService_def
      perform_def startStatusUpdates_def fileTimestamp_def pathJoin_def Let_def)

theorem C6_witness:
  "startRecording demoStartEnv demoRecording = (Inl ''Recording already in progress'', demoRecording)
   \<and> startRecording (demoStartEnv\<lparr>recordProgram := None\<rparr>) demoRecording =
       (Inl ''Recording already in progress'', demoRecording)"
proof -
  have r: "isRecording demoRecording" by (simp add: demoRecording_eq)
  show ?thesis
    using r demo_start
      C6_start_while_recording_changes_nothing [of demoRecording demoStartEnv]
      C6_start_while_recording_changes_nothing
        [of "newService ''/home/u/MeetingIntelligence/recordings''" demoStartEnv
          "''meeting_2025-01-01T10-00-00.wav''" demoRecording "demoStartEnv\<lparr>recordProgram := None\<rparr>"]
    by simp
qed

lemma demo_stop:
  "stopRecording demoStopEnv demoRecording =
     (Inr (Some ''/home/u/MeetingIntelligence/recordings/meeting_2025-01-01T10-00-00.wav'', 4200),
      snd (stopRecording demoStopEnv demoRecording))"
  unfolding demoRecording_eq
  by (simp add: stopRecording_def demoStopEnv_def perform_def pathJoin_def elapsedSeconds_def Let_def)

theorem C7_witness:
  "stopRecording demoStopEnv (newService ''/home/u/MeetingIntelligence/recordings'') =
     (Inl ''No recording in progress'', newService ''/home/u/MeetingIntelligence/recordings'')
   \<and> stopRecording demoStopEnv (snd (stopRecording demoStopEnv demoRecording)) =
     (Inl ''No recording in progress'', snd (stopRecording demoStopEnv demoRecording))"
proof -
  have idle: "\<not> isRecording (newService ''/home/u/MeetingIntelligence/recordings'')"
    by (simp add: newService_def)
  show ?thesis
    using idle demo_stop
      C7_stop_when_not_recording [of "newService ''/home/u/MeetingIntelligence/recordings''" demoStopEnv]
      C7_stop_when_not_recording [of demoRecording demoStopEnv
          "(Some ''/home/u/MeetingIntelligence/recordings/meeting_2025-01-01T10-00-00.wav'', 4200)"
          "snd (stopRecording demoStopEnv demoRecording)" demoStopEnv]
    by simp
qed

subsection \<open>The processing workflow\<close>

lemmas workflow_defs =
  mount_def startTranscription_def startAIAnalysis_def saveMeeting_def meetingDraft_def
  handleSpeakersIdentified_def handleSkipSpeakerIdentification_def
  setCurrentStep_def called_def logged_def initialWorkflow_def Let_def


lemma mount_speakers:
  assumes "processAudio api audioFilePath = Inr result" and "tr_speakers result \<noteq> []"
  shows "mount api audioFilePath db =
           (initialWorkflow db)
             \<lparr>currentStep := speaker_identification, progress := 40,
              transcriptionResult := Some result,
              stepLog := [transcription, speaker_identification],
              calls := [ProcessAudio audioFilePath]\<rparr>"
  using assms by (simp add: workflow_defs)

lemma namingEvent_NameChange:
  "fst (namingEvent api audioFilePath (NameChange speakerId name) (w, names)) = w"
  by simp

lemma namingEvent_edits:
  "fst (fold (namingEvent api audioFilePath) (map (\<lambda>(speakerId, name). NameChange speakerId name) edits) (w, names)) = w"
proof (induction edits arbitrary: names)
  case Nil
  show ?case by simp
next
  case (Cons e edits)
  obtain speakerId name where e: "e = (speakerId, name)" by (cases e)
  obtain names' where step:
    "namingEvent api audioFilePath (NameChange speakerId name) (w, names) = (w, names')"
    by (cases "dialogShown w \<and> speakerId \<in> set (map sp_id (shownSpeakers w))") auto
  show ?case using Cons.IH [of names'] by (simp add: e step del: namingEvent.simps)
qed

lemma namingEvent_changes:
  assumes "fst (namingEvent api audioFilePath ev (w, names)) \<noteq> w"
  shows "ev = SkipClick \<or> (ev = ConfirmClick \<and> confirmEnabled names)"
  using assms by (cases ev) (auto simp: confirmClick_def split: if_splits)

lemma stepLog_startAIAnalysis:
  "take (Suc (length (stepLog w))) (stepLog (startAIAnalysis api audioFilePath render speakers w))
     = stepLog w @ [ai_analysis]"
  by (simp add: workflow_defs split: option.splits sum.splits DeleteOutcome.splits)

lemma digits_1_2: "digitsOf (Suc 0) = ''1''" "digitsOf (Suc (Suc 0)) = ''2''"
  by code_simp+

lemma numSpeakers_budget: "numSpeakers budgetTranscript = 1"
  by (simp add: numSpeakers_def budget_counts)

lemma numSpeakers_dialogue: "numSpeakers dialogueTranscript = 2"
proof -
  have "ratioSpeakers dialogueTranscript = 1"
    by (simp add: ratioSpeakers_def indicatorRatio_def dialogue_counts)
  then show ?thesis
    by (simp add: numSpeakers_def dialogueSpeakers_def dialogue_counts)
qed

lemma upt_2: "[0..<2] = [0, Suc 0]"
  by (simp add: upt_rec)

lemma speakers_budget:
  "simulateSpeakerDiarization rnd audioSnippets budgetTranscript =
     [\<lparr>sp_id = ''speaker_1'', sp_name = ''Speaker 1'', sp_confidence = 0.75 + rnd 0 * 0.2,
       sp_sampleAudio = snippetAt audioSnippets 0\<rparr>]"
  by (simp add: simulateSpeakerDiarization_def numSpeakers_budget digits_1_2 del: digitsOf.simps)

lemma twoSpeakers_eq:
  "twoSpeakers =
     [\<lparr>sp_id = ''speaker_1'', sp_name = ''Speaker 1'', sp_confidence = 0.85, sp_sampleAudio = []\<rparr>,
      \<lparr>sp_id = ''speaker_2'', sp_name = ''Speaker 2'', sp_confidence = 0.85, sp_sampleAudio = []\<rparr>]"
  by (simp add: twoSpeakers_def simulateSpeakerDiarization_def numSpeakers_dialogue upt_2
      digits_1_2 snippetAt_def del: digitsOf.simps)

lemma scenario_transcribe:
  "processAudio (scenarioApi transcript analysis outcome) scenarioPath =
     Inr \<lparr>tr_transcript = transcript,
          tr_speakers = simulateSpeakerDiarization (\<lambda>i. 1 / 2) [] transcript,
          tr_confidence = 0.9, tr_duration = 30\<rparr>"
  by (simp add: scenarioApi_def transcribeAudio_def scenarioTranscription_def scenarioPath_def)

text \<open>
  The part of claim C3 that the code keeps. When the transcription detected at least
  one speaker the run stops at the speaker identification with the dialog shown and
  no further service called; typing names leaves the run where it is, the only events
  that move it are "Skip" and a click on the enabled "Confirm Speakers", and each of
  the two takes it to the analysis.
\<close>

lemma speakers_stop_at_naming:
  assumes "processAudio api audioFilePath = Inr result" and "tr_speakers result \<noteq> []"
  shows "currentStep (mount api audioFilePath db) = speaker_identification
       \<and> stepLog (mount api audioFilePath db) = [transcription, speaker_identification]
       \<and> calls (mount api audioFilePath db) = [ProcessAudio audioFilePath]
       \<and> dialogShown (mount api audioFilePath db)
       \<and> shownSpeakers (mount api audioFilePath db) = tr_speakers result
       \<and> fst (fold (namingEvent api audioFilePath)
                 (map (\<lambda>(speakerId, name). NameChange speakerId name) edits)
                 (mount api audioFilePath db, names)) = mount api audioFilePath db
       \<and> (fst (namingEvent api audioFilePath ev (mount api audioFilePath db, names))
             \<noteq> mount api audioFilePath db
           \<longrightarrow> ev = SkipClick \<or> (ev = ConfirmClick \<and> confirmEnabled names))
       \<and> take 3 (stepLog (fst (namingEvent api audioFilePath SkipClick
                                  (mount api audioFilePath db, names))))
           = [transcription, speaker_identification, ai_analysis]
       \<and> (confirmEnabled names \<longrightarrow>
            take 3 (stepLog (fst (namingEvent api audioFilePath ConfirmClick
                                    (mount api audioFilePath db, names))))
            = [transcription, speaker_identification, ai_analysis])"
proof (intro conjI impI)
  note m = mount_speakers [OF assms, of db]
  show "currentStep (mount api audioFilePath db) = speaker_identification"
    by (simp add: m)
  show log: "stepLog (mount api audioFilePath db) = [transcription, speaker_identification]"
    by (simp add: m)
  show "calls (mount api audioFilePath db) = [ProcessAudio audioFilePath]"
    by (simp add: m)
  show shown: "dialogShown (mount api audioFilePath db)"
    by (simp add: m dialogShown_def initialWorkflow_def)
  show "shownSpeakers (mount api audioFilePath db) = tr_speakers result"
    by (simp add: m shownSpeakers_def)
  show "fst (fold (namingEvent api audioFilePath)
              (map (\<lambda>(speakerId, name). NameChange speakerId name) edits)
              (mount api audioFilePath db, names)) = mount api audioFilePath db"
    by (rule namingEvent_edits)
  show "take 3 (stepLog (fst (namingEvent api audioFilePath SkipClick
                                (mount api audioFilePath db, names))))
        = [transcription, speaker_identification, ai_analysis]"
    using stepLog_startAIAnalysis [of "mount api audioFilePath db" api audioFilePath
        "mount api audioFilePath db" "genericSpeakers (mount api audioFilePath db)"] shown
    by (simp add: log handleSkipSpeakerIdentification_def eval_nat_numeral)
  {
    assume "confirmEnabled names"
    then show "take 3 (stepLog (fst (namingEvent api audioFilePath ConfirmClick
                                  (mount api audioFilePath db, names))))
          = [transcription, speaker_identification, ai_analysis]"
      using stepLog_startAIAnalysis [of "mount api audioFilePath db" api audioFilePath
          "mount api audioFilePath db"
          "handleConfirmSpeakers (shownSpeakers (mount api audioFilePath db)) names"] shown
      by (simp add: log handleSpeakersIdentified_def confirmClick_def eval_nat_numeral)
  }
  {
    assume "fst (namingEvent api audioFilePath ev (mount api audioFilePath db, names))
              \<noteq> mount api audioFilePath db"
    then show "ev = SkipClick \<or> (ev = ConfirmClick \<and> confirmEnabled names)"
      by (rule namingEvent_changes)
  }
qed


lemma dialogue_transcribe:
  "processAudio (scenarioApi dialogueTranscript analysis outcome) scenarioPath =
     Inr \<lparr>tr_transcript = dialogueTranscript, tr_speakers = twoSpeakers,
          tr_confidence = 0.9, tr_duration = 30\<rparr>"
  by (simp add: scenario_transcribe twoSpeakers_def)


text \<open>
  Claim C9. In \<^verbatim>\<open>saveMeeting\<close>, let the render hold a transcription result and the
  request to delete the recording, let the database store the meeting, and let the
  deletion of the audio file fail (rejected, or reported as failed). Then no error is
  set, the steps are saving and then complete with progress 100, the stored meeting is
  the last of the database and is the one handed on for completion, the only calls are
  the one save and the one deletion, and the state reached is the state a successful
  deletion reaches but for the console.
\<close>

theorem C9_deletion_failure_not_propagated:
  assumes "transcriptionResult render = Some result"
    and "deleteRecording render"
    and "databaseSave api (meetingDraft api audioFilePath render result speakers analysis)
           = Inr savedMeeting"
    and "deleteAudio api audioFilePath = DeleteRejected message
         \<or> deleteAudio api audioFilePath = DeleteReported message"
  shows "currentStep (saveMeeting api audioFilePath render speakers analysis w) = complete
       \<and> progress (saveMeeting api audioFilePath render speakers analysis w) = 100
       \<and> error (saveMeeting api audioFilePath render speakers analysis w) = error w
       \<and> stepLog (saveMeeting api audioFilePath render speakers analysis w)
           = stepLog w @ [saving, complete]
       \<and> calls (saveMeeting api audioFilePath render speakers analysis w)
           = calls w @ [SaveMeeting (meetingDraft api audioFilePath render result speakers analysis),
                        DeleteAudio audioFilePath]
       \<and> database (saveMeeting api audioFilePath render speakers analysis w)
           = database w @ [savedMeeting]
       \<and> completed (saveMeeting api audioFilePath render speakers analysis w) = Some savedMeeting
       \<and> (saveMeeting api audioFilePath render speakers analysis w)\<lparr>console := []\<rparr>
           = (saveMeeting (api\<lparr>deleteAudio := (\<lambda>p. Deleted)\<rparr>) audioFilePath render speakers
                analysis w)\<lparr>console := []\<rparr>"
proof -
  let ?draft = "meetingDraft api audioFilePath render result speakers analysis"
  let ?w' = "saveMeeting api audioFilePath render speakers analysis w"
  have draft: "meetingDraft (api\<lparr>deleteAudio := (\<lambda>p. Deleted)\<rparr>) audioFilePath render result
      speakers analysis = ?draft"
    by (simp add: meetingDraft_def)
  have run: "?w' =
      (logged (case deleteAudio api audioFilePath of
                 DeleteRejected m \<Rightarrow> ''Failed to delete audio file:''
               | outcome \<Rightarrow> ''Audio file deleted successfully:'') w)
        \<lparr>currentStep := complete, progress := 100,
         stepLog := stepLog w @ [saving, complete],
         calls := calls w @ [SaveMeeting ?draft, DeleteAudio audioFilePath],
         database := database w @ [savedMeeting], completed := Some savedMeeting\<rparr>"
    using assms
    by (auto simp: saveMeeting_def setCurrentStep_def called_def logged_def Let_def)
  have ok: "saveMeeting (api\<lparr>deleteAudio := (\<lambda>p. Deleted)\<rparr>) audioFilePath render speakers analysis w =
      (logged ''Audio file deleted successfully:'' w)
        \<lparr>currentStep := complete, progress := 100,
         stepLog := stepLog w @ [saving, complete],
         calls := calls w @ [SaveMeeting ?draft, DeleteAudio audioFilePath],
         database := database w @ [savedMeeting], completed := Some savedMeeting\<rparr>"
    using assms(1-3)
    by (simp add: saveMeeting_def draft setCurrentStep_def called_def logged_def Let_def)
  have steps: "currentStep ?w' = complete \<and> progress ?w' = 100 \<and> error ?w' = error w
       \<and> stepLog ?w' = stepLog w @ [saving, complete]"
    by (simp add: run logged_def)
  have stored: "calls ?w' = calls w @ [SaveMeeting ?draft, DeleteAudio audioFilePath]
       \<and> database ?w' = database w @ [savedMeeting] \<and> completed ?w' = Some savedMeeting"
    by (simp add: run logged_def)
  have same: "?w'\<lparr>console := []\<rparr>
           = (saveMeeting (api\<lparr>deleteAudio := (\<lambda>p. Deleted)\<rparr>) audioFilePath render speakers
                analysis w)\<lparr>console := []\<rparr>"
    by (simp add: run ok logged_def)
  show ?thesis
    using steps stored same by blast
qed

lemma budget_transcribe:
  "processAudio (scenarioApi budgetTranscript analysis outcome) scenarioPath =
     Inr \<lparr>tr_transcript = budgetTranscript,
          tr_speakers = [\<lparr>sp_id = ''speaker_1'', sp_name = ''Speaker 1'', sp_confidence = 0.85,
                          sp_sampleAudio = []\<rparr>],
          tr_confidence = 0.9, tr_duration = 30\<rparr>"
  by (simp add: scenario_transcribe speakers_budget snippetAt_def)

lemma budget_mount:
  "mount (scenarioApi budgetTranscript analysis outcome) scenarioPath db =
     (initialWorkflow db)
       \<lparr>currentStep := speaker_identification, progress := 40,
        transcriptionResult :=
          Some \<lparr>tr_transcript = budgetTranscript,
                tr_speakers = [\<lparr>sp_id = ''speaker_1'', sp_name = ''Speaker 1'',
                                sp_confidence = 0.85, sp_sampleAudio = []\<rparr>],
                tr_confidence = 0.9, tr_duration = 30\<rparr>,
        stepLog := [transcription, speaker_identification],
        calls := [ProcessAudio scenarioPath]\<rparr>"
  by (rule mount_speakers [OF budget_transcribe]) simp

lemma budget_generic:
  "genericSpeakers (mount (scenarioApi budgetTranscript analysis outcome) scenarioPath db) =
     [\<lparr>sp_id = ''speaker_1'', sp_name = ''Speaker 1'', sp_confidence = 0.85, sp_sampleAudio = []\<rparr>]"
  by (simp add: budget_mount genericSpeakers_def digits_1_2 del: digitsOf.simps)

lemma dialogue_mount:
  "mount (scenarioApi dialogueTranscript analysis outcome) scenarioPath db =
     (initialWorkflow db)
       \<lparr>currentStep := speaker_identification, progress := 40,
        transcriptionResult :=
          Some \<lparr>tr_transcript = dialogueTranscript, tr_speakers = twoSpeakers,
                tr_confidence = 0.9, tr_duration = 30\<rparr>,
        stepLog := [transcription, speaker_identification],
        calls := [ProcessAudio scenarioPath]\<rparr>"
  by (rule mount_speakers [OF dialogue_transcribe]) (simp add: twoSpeakers_eq)

theorem C9_witness:
  "currentStep (saveMeeting (scenarioApi dialogueTranscript fixedAnalysis (DeleteRejected ''EACCES''))
       scenarioPath
       (mount (scenarioApi dialogueTranscript fixedAnalysis (DeleteRejected ''EACCES'')) scenarioPath [])
       twoSpeakers fixedAnalysis
       (mount (scenarioApi dialogueTranscript fixedAnalysis (DeleteRejected ''EACCES'')) scenarioPath []))
     = complete
   \<and> error (saveMeeting (scenarioApi dialogueTranscript fixedAnalysis (DeleteRejected ''EACCES''))
       scenarioPath
       (mount (scenarioApi dialogueTranscript fixedAnalysis (DeleteRejected ''EACCES'')) scenarioPath [])
       twoSpeakers fixedAnalysis
       (mount (scenarioApi dialogueTranscript fixedAnalysis (DeleteRejected ''EACCES'')) scenarioPath []))
     = None
   \<and> map m_participants
       (database (saveMeeting (scenarioApi dialogueTranscript fixedAnalysis (DeleteRejected ''EACCES''))
       scenarioPath
       (mount (scenarioApi dialogueTranscript fixedAnalysis (DeleteRejected ''EACCES'')) scenarioPath [])
       twoSpeakers fixedAnalysis
       (mount (scenarioApi dialogueTranscript fixedAnalysis (DeleteRejected ''EACCES'')) scenarioPath [])))
     = [[''Speaker 1'', ''Speaker 2'']]"
proof -
  let ?api = "scenarioApi dialogueTranscript fixedAnalysis (DeleteRejected ''EACCES'')"
  let ?w = "mount ?api scenarioPath []"
  let ?result = "\<lparr>tr_transcript = dialogueTranscript, tr_speakers = twoSpeakers,
            tr_confidence = 0.9, tr_duration = 30\<rparr>"
  let ?draft = "meetingDraft ?api scenarioPath ?w ?result twoSpeakers fixedAnalysis"
  let ?saved = "MeetingDraft.extend ?draft
      (Meeting.fields (uuid scenarioDb) (dbNow scenarioDb) (dbNow scenarioDb))"
  have r: "transcriptionResult ?w = Some ?result"
    by (simp add: dialogue_mount)
  have d: "deleteRecording ?w" and e: "error ?w = None" and n: "database ?w = []"
    by (simp_all add: dialogue_mount initialWorkflow_def)
  have s: "databaseSave ?api ?draft = Inr ?saved"
    by (simp add: scenarioApi_def dbSaveMeeting_def scenarioDb_def)
  have f: "deleteAudio ?api scenarioPath = DeleteRejected ''EACCES''
         \<or> deleteAudio ?api scenarioPath = DeleteReported ''EACCES''"
    by (simp add: scenarioApi_def)
  have p: "m_participants ?saved = [''Speaker 1'', ''Speaker 2'']"
    by (simp add: meetingDraft_def twoSpeakers_eq MeetingDraft.defs Meeting.defs)
  show ?thesis
    using C9_deletion_failure_not_propagated [OF r d s f, of ?w] e n p
    by simp
qed

text \<open>
  Claim C2, as stated, fails on the scenario: with the transcript of nine words the
  estimate is one speaker, the transcription result therefore holds one speaker, and
  the run stops at the speaker identification; the analysis has not been entered and
  no service but the transcription has been called.
\<close>

theorem C2_counterexample:
  "currentStep (mount (scenarioApi budgetTranscript fixedAnalysis Deleted) scenarioPath [])
     = speaker_identification
   \<and> ai_analysis \<notin> set (stepLog (mount (scenarioApi budgetTranscript fixedAnalysis Deleted) scenarioPath []))
   \<and> calls (mount (scenarioApi budgetTranscript fixedAnalysis Deleted) scenarioPath [])
     = [ProcessAudio scenarioPath]"
  by (simp add: budget_mount)

text \<open>
  Claim C2, amended. In the end-to-end scenario on the transcript of nine words, for
  every analysis result and every outcome of the deletion: the estimate is 1; the run
  stops at the speaker identification with one speaker shown; and once "Skip" is
  invoked it goes through analysis and saving to complete, the stored meeting has the
  participants ["Speaker 1"] and, the deletion of the recording being requested, no
  audio file path.
\<close>

theorem C2_end_to_end_stops_for_naming_then_skip:
  "numSpeakers budgetTranscript = 1
   \<and> length (shownSpeakers (mount (scenarioApi budgetTranscript analysis outcome) scenarioPath db)) = 1
   \<and> currentStep (mount (scenarioApi budgetTranscript analysis outcome) scenarioPath db)
       = speaker_identification
   \<and> stepLog (mount (scenarioApi budgetTranscript analysis outcome) scenarioPath db)
       = [transcription, speaker_identification]
   \<and> stepLog (fst (namingEvent (scenarioApi budgetTranscript analysis outcome) scenarioPath SkipClick
                 (mount (scenarioApi budgetTranscript analysis outcome) scenarioPath db, names)))
       = [transcription, speaker_identification, ai_analysis, saving, complete]
   \<and> map m_participants
        (database (fst (namingEvent (scenarioApi budgetTranscript analysis outcome) scenarioPath SkipClick
                 (mount (scenarioApi budgetTranscript analysis outcome) scenarioPath db, names))))
       = map m_participants db @ [[''Speaker 1'']]
   \<and> map m_audioFilePath
        (database (fst (namingEvent (scenarioApi budgetTranscript analysis outcome) scenarioPath SkipClick
                 (mount (scenarioApi budgetTranscript analysis outcome) scenarioPath db, names))))
       = map m_audioFilePath db @ [None]"
proof -
  let ?api = "scenarioApi budgetTranscript analysis outcome"
  let ?w = "mount ?api scenarioPath db"
  have shown: "dialogShown ?w"
    by (simp add: budget_mount dialogShown_def initialWorkflow_def)
  have skip: "fst (namingEvent ?api scenarioPath SkipClick (?w, names)) =
      startAIAnalysis ?api scenarioPath ?w
        [\<lparr>sp_id = ''speaker_1'', sp_name = ''Speaker 1'', sp_confidence = 0.85, sp_sampleAudio = []\<rparr>] ?w"
    using shown by (simp add: handleSkipSpeakerIdentification_def budget_generic)
  have an: "analyzeMeeting ?api = (\<lambda>t m. Inr analysis)"
    and db: "databaseSave ?api = dbSaveMeeting scenarioDb" "insertError scenarioDb = None"
    by (simp_all add: scenarioApi_def scenarioDb_def)
  have a: "numSpeakers budgetTranscript = 1" by (rule numSpeakers_budget)
  have b: "length (shownSpeakers ?w) = 1 \<and> currentStep ?w = speaker_identification
      \<and> stepLog ?w = [transcription, speaker_identification]"
    by (simp add: budget_mount shownSpeakers_def)
  have c: "stepLog (fst (namingEvent ?api scenarioPath SkipClick (?w, names)))
       = [transcription, speaker_identification, ai_analysis, saving, complete]"
    unfolding skip
    by (simp add: startAIAnalysis_def saveMeeting_def meetingDraft_def an db dbSaveMeeting_def budget_mount
        initialWorkflow_def setCurrentStep_def called_def logged_def Let_def
        split: DeleteOutcome.splits)
  have d: "map m_participants (database (fst (namingEvent ?api scenarioPath SkipClick (?w, names))))
       = map m_participants db @ [[''Speaker 1'']]"
    unfolding skip
    by (simp add: startAIAnalysis_def saveMeeting_def meetingDraft_def an db dbSaveMeeting_def budget_mount
        initialWorkflow_def setCurrentStep_def called_def logged_def Let_def
        MeetingDraft.defs Meeting.defs
        split: DeleteOutcome.splits)
  have e: "map m_audioFilePath (database (fst (namingEvent ?api scenarioPath SkipClick (?w, names))))
       = map m_audioFilePath db @ [None]"
    unfolding skip
    by (simp add: startAIAnalysis_def saveMeeting_def meetingDraft_def an db dbSaveMeeting_def budget_mount
        initialWorkflow_def setCurrentStep_def called_def logged_def Let_def
        MeetingDraft.defs Meeting.defs
        split: DeleteOutcome.splits)
  show ?thesis
    using a b c d e by simp
qed

theorem C2_witness:
  "stepLog (fst (namingEvent (scenarioApi budgetTranscript fixedAnalysis Deleted) scenarioPath SkipClick
                 (mount (scenarioApi budgetTranscript fixedAnalysis Deleted) scenarioPath [],
                  [(''speaker_1'', [])])))
       = [transcription, speaker_identification, ai_analysis, saving, complete]
   \<and> map m_participants
        (database (fst (namingEvent (scenarioApi budgetTranscript fixedAnalysis Deleted) scenarioPath SkipClick
                 (mount (scenarioApi budgetTranscript fixedAnalysis Deleted) scenarioPath [],
                  [(''speaker_1'', [])]))))
       = [[''Speaker 1'']]
   \<and> map m_audioFilePath
        (database (fst (namingEvent (scenarioApi budgetTranscript fixedAnalysis Deleted) scenarioPath SkipClick
                 (mount (scenarioApi budgetTranscript fixedAnalysis Deleted) scenarioPath [],
                  [(''speaker_1'', [])]))))
       = [None]"
  using C2_end_to_end_stops_for_naming_then_skip [of fixedAnalysis Deleted "[]" "[(''speaker_1'', [])]"]
  by (simp del: namingEvent.simps)

subsection \<open>The naming dialog\<close>

lemma defaultName_nonempty: "defaultName speakerId \<noteq> []"
  by (simp add: defaultName_def)

lemma confirmed_names_nonempty:
  "speaker \<in> set (handleConfirmSpeakers speakers speakerNames) \<Longrightarrow> sp_name speaker \<noteq> []"
  by (auto simp: handleConfirmSpeakers_def defaultName_nonempty split: option.splits if_splits)

lemma collide_names:
  "handleNameChange ''speaker_1'' ''Speaker 2'' (initialNames twoSpeakers) =
     [(''speaker_1'', ''Speaker 2''), (''speaker_2'', [])]"
  by (simp add: twoSpeakers_eq initialNames_def handleNameChange_def)

lemma collide_enabled: "confirmEnabled [(''speaker_1'', ''Speaker 2''), (''speaker_2'', [])]"
  by code_simp

lemma collide_default: "defaultName ''speaker_2'' = ''Speaker 2''"
  by code_simp

lemma collide_confirm:
  "map sp_name (handleConfirmSpeakers twoSpeakers [(''speaker_1'', ''Speaker 2''), (''speaker_2'', [])])
     = [''Speaker 2'', ''Speaker 2'']"
  by (simp add: twoSpeakers_eq handleConfirmSpeakers_def collide_default)

text \<open>
  Claim C8, at an input where the code breaks it. Two speakers were detected; the user
  types "Speaker 2" as the name of the first and leaves the field of the second empty.
  Both checks of the dialog pass (one name is given, and the names that were typed are
  unique), so "Confirm Speakers" is enabled; the second speaker then receives the
  default name "Speaker 2", the names handed on are ["Speaker 2", "Speaker 2"], not
  pairwise distinct, and the run goes on to complete and stores them as participants.
\<close>

theorem C8_default_name_collides_with_entered_name:
  "confirmEnabled (handleNameChange ''speaker_1'' ''Speaker 2'' (initialNames twoSpeakers))
   \<and> map_option (map sp_name)
        (confirmClick twoSpeakers (handleNameChange ''speaker_1'' ''Speaker 2'' (initialNames twoSpeakers)))
       = Some [''Speaker 2'', ''Speaker 2'']
   \<and> \<not> distinct (map sp_name
        (handleConfirmSpeakers twoSpeakers
           (handleNameChange ''speaker_1'' ''Speaker 2'' (initialNames twoSpeakers))))
   \<and> currentStep (fst (namingEvent (scenarioApi dialogueTranscript fixedAnalysis Deleted) scenarioPath
         ConfirmClick
         (mount (scenarioApi dialogueTranscript fixedAnalysis Deleted) scenarioPath [],
          handleNameChange ''speaker_1'' ''Speaker 2'' (initialNames twoSpeakers)))) = complete
   \<and> map m_participants
        (database (fst (namingEvent (scenarioApi dialogueTranscript fixedAnalysis Deleted) scenarioPath
         ConfirmClick
         (mount (scenarioApi dialogueTranscript fixedAnalysis Deleted) scenarioPath [],
          handleNameChange ''speaker_1'' ''Speaker 2'' (initialNames twoSpeakers)))))
       = [[''Speaker 2'', ''Speaker 2'']]"
proof -
  let ?names = "handleNameChange ''speaker_1'' ''Speaker 2'' (initialNames twoSpeakers)"
  let ?api = "scenarioApi dialogueTranscript fixedAnalysis Deleted"
  let ?w = "mount ?api scenarioPath []"
  let ?w' = "fst (namingEvent ?api scenarioPath ConfirmClick (?w, ?names))"
  have enabled: "confirmEnabled ?names"
    by (simp only: collide_names collide_enabled)
  have click: "map_option (map sp_name) (confirmClick twoSpeakers ?names)
      = Some [''Speaker 2'', ''Speaker 2'']"
    using enabled by (simp add: confirmClick_def) (simp only: collide_names collide_confirm)
  have dup: "\<not> distinct (map sp_name (handleConfirmSpeakers twoSpeakers ?names))"
    by (simp only: collide_names collide_confirm) simp
  have shown: "dialogShown ?w" "shownSpeakers ?w = twoSpeakers"
    by (simp_all add: dialogue_mount dialogShown_def shownSpeakers_def initialWorkflow_def)
  have step: "?w' = startAIAnalysis ?api scenarioPath ?w (handleConfirmSpeakers twoSpeakers ?names) ?w"
    using shown enabled by (simp add: confirmClick_def handleSpeakersIdentified_def)
  have an: "analyzeMeeting ?api = (\<lambda>t m. Inr fixedAnalysis)"
    and db: "databaseSave ?api = dbSaveMeeting scenarioDb" "insertError scenarioDb = None"
    and del: "deleteAudio ?api = (\<lambda>p. Deleted)"
    by (simp_all add: scenarioApi_def scenarioDb_def)
  have reached: "currentStep ?w' = complete"
    unfolding step
    by (simp add: startAIAnalysis_def saveMeeting_def meetingDraft_def an db del dbSaveMeeting_def dialogue_mount
        initialWorkflow_def setCurrentStep_def called_def logged_def Let_def)
  have stored: "map m_participants (database ?w')
      = [map sp_name (handleConfirmSpeakers twoSpeakers ?names)]"
    unfolding step
    by (simp add: startAIAnalysis_def saveMeeting_def meetingDraft_def an db del dbSaveMeeting_def dialogue_mount
        initialWorkflow_def setCurrentStep_def called_def logged_def Let_def
        MeetingDraft.defs Meeting.defs)
  have stored': "map m_participants (database ?w') = [[''Speaker 2'', ''Speaker 2'']]"
    unfolding stored by (simp only: collide_names collide_confirm)
  show ?thesis
    using enabled click dup reached stored' by blast
qed

end
